theory Spec2Isabelle
  imports Main
begin

section \<open>Characters and strings\<close>

text \<open>
  A JavaScript string is a sequence of UTF-16 code units. The model uses HOL's
  \<^typ>\<open>string\<close>, whose characters are the code units below 256 (ASCII and Latin-1, which
  covers every letter the sources match on). The character classes of the regular
  expressions in the sources are written out as predicates on one character:
  \<^verbatim>\<open>\d\<close> is \<open>isDigit\<close>, \<^verbatim>\<open>\s\<close> is \<open>isSpace\<close>, \<^verbatim>\<open>\w\<close> is \<open>isWord\<close>.
\<close>

definition isDigit :: "char \<Rightarrow> bool" where
  "isDigit c = (c \<in> set ''0123456789'')"

definition isSpace :: "char \<Rightarrow> bool" where
  \<comment> \<open>tab, line feed, vertical tab, form feed, carriage return, space, no-break space\<close>
  "isSpace c = (c \<in> set [CHR 0x09, CHR 0x0A, CHR 0x0B, CHR 0x0C, CHR 0x0D, CHR '' '', CHR 0xA0])"

definition isAsciiLetter :: "char \<Rightarrow> bool" where
  "isAsciiLetter c =
     (c \<in> set ''abcdefghijklmnopqrstuvwxyz'' \<or> c \<in> set ''ABCDEFGHIJKLMNOPQRSTUVWXYZ'')"

definition isWord :: "char \<Rightarrow> bool" where
  "isWord c = (isAsciiLetter c \<or> isDigit c \<or> c = CHR ''_'')"

text \<open>\<^verbatim>\<open>String.prototype.trim\<close>: white space is removed from both ends.\<close>

definition trim :: "string \<Rightarrow> string" where
  "trim s = rev (dropWhile isSpace (rev (dropWhile isSpace s)))"

text \<open>The decimal rendering of a length inside a template literal.\<close>

fun showNat :: "nat \<Rightarrow> string" where
  "showNat n =
     (if n < 10 then [''0123456789'' ! n]
      else showNat (n div 10) @ [''0123456789'' ! (n mod 10)])"

section \<open>Validation pipeline (src/utils/validation.ts)\<close>

subsection \<open>validateCEP\<close>

record cep_validation_result =
  cep_valid :: bool
  cleanCEP :: string
  cep_error :: "string option"

text \<open>
  The five entries of \<^verbatim>\<open>invalidPatterns\<close>, each as the test of its regular expression:
  \<^verbatim>\<open>/^0+$/\<close>, \<^verbatim>\<open>/^1{8}$/\<close>, \<^verbatim>\<open>/^(\d)\1{7}$/\<close>, \<^verbatim>\<open>/^12345678$/\<close>, \<^verbatim>\<open>/^87654321$/\<close>.
\<close>

definition allZeros :: "string \<Rightarrow> bool" where
  "allZeros d = (d \<noteq> [] \<and> list_all (\<lambda>c. c = CHR ''0'') d)"

definition eightOnes :: "string \<Rightarrow> bool" where
  "eightOnes d = (d = replicate 8 (CHR ''1''))"

definition repeatedDigit :: "string \<Rightarrow> bool" where
  "repeatedDigit d = (case d of [] \<Rightarrow> False | c # cs \<Rightarrow> isDigit c \<and> cs = replicate 7 c)"

definition invalidPatterns :: "(string \<Rightarrow> bool) list" where
  "invalidPatterns =
     [allZeros, eightOnes, repeatedDigit, (\<lambda>d. d = ''12345678''), (\<lambda>d. d = ''87654321'')]"

text \<open>\<^verbatim>\<open>parseInt(cleanCEP[0], 10)\<close> on a digit character.\<close>

definition digitValue :: "char \<Rightarrow> nat" where
  "digitValue c = of_char c - 48"

definition validateCEP :: "string \<Rightarrow> cep_validation_result" where
  "validateCEP cep =
     (if cep = [] then
        \<lparr>cep_valid = False, cleanCEP = [], cep_error = Some ''Por favor, digite um CEP.''\<rparr>
      else
        let clean = filter isDigit cep in
        if length clean = 0 then
          \<lparr>cep_valid = False, cleanCEP = [], cep_error = Some ''Por favor, digite um CEP.''\<rparr>
        else if length clean \<noteq> 8 then
          \<lparr>cep_valid = False, cleanCEP = clean,
           cep_error = Some (''CEP deve ter 8 digitos. Voce digitou '' @ showNat (length clean) @ ''.'')\<rparr>
        else if list_ex (\<lambda>pattern. pattern clean) invalidPatterns then
          \<lparr>cep_valid = False, cleanCEP = clean,
           cep_error = Some ''CEP invalido. Por favor, digite um CEP real.''\<rparr>
        else if (case clean of [] \<Rightarrow> False | c # _ \<Rightarrow> digitValue c > 9) then
          \<lparr>cep_valid = False, cleanCEP = clean,
           cep_error = Some ''CEP invalido. Por favor, digite um CEP real.''\<rparr>
        else
          \<lparr>cep_valid = True, cleanCEP = clean, cep_error = None\<rparr>)"

subsection \<open>Regular-expression helpers\<close>

text \<open>
  \<^verbatim>\<open>RegExp.prototype.test\<close> on a pattern that is not anchored tries every start
  position from the left. \<open>existsAt P prev s\<close> does so for a matcher \<open>P\<close> that sees the
  character before the start position (\<open>None\<close> at the beginning of the input) and the
  rest of the input; the previous character is what \<^verbatim>\<open>\b\<close> needs.
\<close>

fun existsAt :: "(char option \<Rightarrow> string \<Rightarrow> bool) \<Rightarrow> char option \<Rightarrow> string \<Rightarrow> bool" where
  "existsAt P prev [] = P prev []"
| "existsAt P prev (c # cs) = (P prev (c # cs) \<or> existsAt P (Some c) cs)"

definition headOpt :: "string \<Rightarrow> char option" where
  "headOpt s = (case s of [] \<Rightarrow> None | c # _ \<Rightarrow> Some c)"

definition isWordOpt :: "char option \<Rightarrow> bool" where
  "isWordOpt x = (case x of None \<Rightarrow> False | Some c \<Rightarrow> isWord c)"

text \<open>\<^verbatim>\<open>\b\<close>: exactly one of the two neighbours is a word character.\<close>

definition wordBoundary :: "char option \<Rightarrow> char option \<Rightarrow> bool" where
  "wordBoundary a b = (isWordOpt a \<noteq> isWordOpt b)"

text \<open>
  \<^verbatim>\<open>/\b\d+\b/\<close> at one start position. The digits are taken greedily; a shorter run
  would end between two digits, where there is no word boundary, so backtracking adds
  no match.
\<close>

definition matchNumberToken :: "char option \<Rightarrow> string \<Rightarrow> bool" where
  "matchNumberToken prev s =
     (let ds = takeWhile isDigit s; rest = dropWhile isDigit s in
      wordBoundary prev (headOpt s) \<and> ds \<noteq> [] \<and> wordBoundary (Some (last ds)) (headOpt rest))"

text \<open>
  \<^verbatim>\<open>/\bs\/?n\b/i\<close> at one start position. The optional slash is taken when it is
  there; skipping it would need the slash to be an \<open>n\<close>.
\<close>

definition matchSemNumero :: "char option \<Rightarrow> string \<Rightarrow> bool" where
  "matchSemNumero prev s =
     (wordBoundary prev (headOpt s) \<and>
      (case s of
         [] \<Rightarrow> False
       | c1 # r1 \<Rightarrow>
           (c1 = CHR ''s'' \<or> c1 = CHR ''S'') \<and>
           (case (case r1 of [] \<Rightarrow> [] | x # r \<Rightarrow> if x = CHR ''/'' then r else r1) of
              [] \<Rightarrow> False
            | c2 # r3 \<Rightarrow>
                (c2 = CHR ''n'' \<or> c2 = CHR ''N'') \<and> wordBoundary (Some c2) (headOpt r3))))"

subsection \<open>validateName\<close>

record name_validation_result =
  name_valid :: bool
  cleanName :: string
  name_error :: "string option"

text \<open>The range from U+00C0 to U+00FF of the character class in \<^verbatim>\<open>validateName\<close>.\<close>

definition isLatinExtended :: "char \<Rightarrow> bool" where
  "isLatinExtended c = ((192::nat) \<le> of_char c)"

text \<open>\<^verbatim>\<open>/^[\d\s]+$/\<close>, and the test that no character is a letter (ASCII or in that range) or white space.\<close>

definition onlyDigitsOrSpaces :: "string \<Rightarrow> bool" where
  "onlyDigitsOrSpaces s = (s \<noteq> [] \<and> list_all (\<lambda>c. isDigit c \<or> isSpace c) s)"

definition noLetterNoSpace :: "string \<Rightarrow> bool" where
  "noLetterNoSpace s =
     (s \<noteq> [] \<and> list_all (\<lambda>c. \<not> (isAsciiLetter c \<or> isLatinExtended c \<or> isSpace c)) s)"

definition validateName :: "string \<Rightarrow> name_validation_result" where
  "validateName nm =
     (if nm = [] then
        \<lparr>name_valid = False, cleanName = [], name_error = Some ''Por favor, digite seu nome.''\<rparr>
      else
        let clean = trim nm in
        if length clean < 2 then
          \<lparr>name_valid = False, cleanName = clean,
           name_error = Some ''Por favor, digite um nome valido (minimo 2 caracteres).''\<rparr>
        else if length clean > 100 then
          \<lparr>name_valid = False, cleanName = take 100 clean,
           name_error = Some ''Nome muito longo. Maximo 100 caracteres.''\<rparr>
        else if onlyDigitsOrSpaces clean then
          \<lparr>name_valid = False, cleanName = clean,
           name_error = Some ''Por favor, digite seu nome (nao apenas numeros).''\<rparr>
        else if noLetterNoSpace clean then
          \<lparr>name_valid = False, cleanName = clean,
           name_error = Some ''Por favor, digite um nome valido.''\<rparr>
        else
          \<lparr>name_valid = True, cleanName = clean, name_error = None\<rparr>)"

subsection \<open>validateAddress\<close>

datatype missing_part = Missing_number | Missing_all

record address_validation_result =
  address_valid :: bool
  missing :: "missing_part option"
  address_error :: "string option"

definition hasNumber :: "string \<Rightarrow> bool" where
  "hasNumber s = (existsAt matchNumberToken None s \<or> existsAt matchSemNumero None s)"

definition validateAddress :: "string \<Rightarrow> address_validation_result" where
  "validateAddress a =
     (if a = [] then
        \<lparr>address_valid = False, missing = Some Missing_all,
         address_error = Some ''Por favor, digite o endereco.''\<rparr>
      else
        let clean = trim a in
        if length clean < 5 then
          \<lparr>address_valid = False, missing = Some Missing_all,
           address_error =
             Some ''O endereco parece muito curto. Por favor, digite Rua, Bairro e Cidade.''\<rparr>
        else if \<not> hasNumber clean then
          \<lparr>address_valid = False, missing = Some Missing_number, address_error = None\<rparr>
        else
          \<lparr>address_valid = True, missing = None, address_error = None\<rparr>)"

subsection \<open>validateAddressNumber and validatePaymentMethod\<close>

record validation_result =
  valid :: bool
  error :: "string option"

definition validateAddressNumber :: "string \<Rightarrow> validation_result" where
  "validateAddressNumber input =
     (if input = [] then \<lparr>valid = False, error = Some ''Por favor, digite o numero.''\<rparr>
      else
        let clean = trim input in
        if length clean = 0 then
          \<lparr>valid = False, error = Some ''Por favor, digite o numero da casa.''\<rparr>
        else if length clean > 50 then
          \<lparr>valid = False, error = Some ''Numero muito longo.''\<rparr>
        else \<lparr>valid = True, error = None\<rparr>)"

definition validatePaymentMethod :: "string \<Rightarrow> validation_result" where
  "validatePaymentMethod method =
     (if method = [] then
        \<lparr>valid = False, error = Some ''Por favor, selecione a forma de pagamento.''\<rparr>
      else
        let clean = trim method in
        if length clean < 2 then
          \<lparr>valid = False, error = Some ''Por favor, selecione uma forma de pagamento valida.''\<rparr>
        else if length clean > 50 then
          \<lparr>valid = False, error = Some ''Forma de pagamento invalida.''\<rparr>
        else \<lparr>valid = True, error = None\<rparr>)"

subsection \<open>sanitizeDisplayText\<close>

text \<open>\<^verbatim>\<open>replace(/[<>]/g, '')\<close> and \<^verbatim>\<open>replace(/\s+/g, ' ')\<close>.\<close>

definition stripAngle :: "string \<Rightarrow> string" where
  "stripAngle s = filter (\<lambda>c. c \<noteq> CHR ''<'' \<and> c \<noteq> CHR ''>'') s"

function collapseSpace :: "string \<Rightarrow> string" where
  "collapseSpace [] = []"
| "collapseSpace (c # cs) =
     (if isSpace c then CHR '' '' # collapseSpace (dropWhile isSpace cs)
      else c # collapseSpace cs)"
  by pat_completeness auto
termination
  by (relation "measure length") (auto simp: length_dropWhile_le less_Suc_eq_le)

definition sanitizeDisplayText :: "string \<Rightarrow> string" where
  "sanitizeDisplayText txt =
     (if txt = [] then [] else take 1000 (collapseSpace (stripAngle (trim txt))))"

section \<open>External response adapter (src/services/geminiService.ts)\<close>

subsection \<open>String helpers\<close>

text \<open>\<^verbatim>\<open>includes\<close>, \<^verbatim>\<open>startsWith\<close> and \<^verbatim>\<open>toLowerCase\<close> (on code units below 256).\<close>

fun includesStr :: "string \<Rightarrow> string \<Rightarrow> bool" where
  "includesStr [] v = (v = [])"
| "includesStr (c # cs) v = (take (length v) (c # cs) = v \<or> includesStr cs v)"

definition startsWith :: "string \<Rightarrow> string \<Rightarrow> bool" where
  "startsWith s v = (take (length v) s = v)"

definition lowerChar :: "char \<Rightarrow> char" where
  "lowerChar c =
     (let n = (of_char c :: nat) in
      if (65 \<le> n \<and> n \<le> 90) \<or> (192 \<le> n \<and> n \<le> 222 \<and> n \<noteq> 215)
      then char_of (n + 32) else c)"

definition toLowerCase :: "string \<Rightarrow> string" where
  "toLowerCase s = map lowerChar s"

subsection \<open>getLocalResponse\<close>

text \<open>
  The canned replies of the local responder carry emoji, which are outside the code
  units of \<^typ>\<open>string\<close>; each reply is one constructor, in the order of the source:
  the empty-input reply, then buckets 1 to 6 with their sub-cases, then the default.
\<close>

datatype local_reply =
    Reply_not_understood
  | Reply_order_with_buttons
  | Reply_menu_below
  | Reply_suggestion
  | Reply_checkout
  | Reply_opening_hours
  | Reply_location
  | Reply_payment_methods
  | Reply_greeting
  | Reply_thanks
  | Reply_default

definition someIncluded :: "string list \<Rightarrow> string \<Rightarrow> bool" where
  "someIncluded vs lower = list_ex (\<lambda>v. includesStr lower v) vs"

definition getLocalResponse :: "string \<Rightarrow> local_reply" where
  "getLocalResponse message =
     (let lower = trim (toLowerCase message) in
      if length lower = 0 then Reply_not_understood
      else if someIncluded
          [''quero'', ''me v'' @ [CHR 0xEA], ''manda'', ''adicionar'', ''pedir'', ''comprar'',
           ''fome''] lower
        then Reply_order_with_buttons
      else if someIncluded
          [''card'' @ [CHR 0xE1] @ ''pio'', ''cardapio'', ''menu'',
           ''op'' @ [CHR 0xE7, CHR 0xF5] @ ''es'', ''tem o que'', ''ver''] lower
        then Reply_menu_below
      else if someIncluded
          [''sugest'' @ [CHR 0xE3] @ ''o'', ''indica'', ''bom'', ''fome'', ''melhor''] lower
        then Reply_suggestion
      else if someIncluded
          [''fechar'', ''conta'', ''pagar'', ''fim'', ''acabei'', ''encerrar''] lower
        then Reply_checkout
      else if someIncluded [''hora'', ''funcionamento'', ''aberto'', ''fecha''] lower
        then Reply_opening_hours
      else if someIncluded
          [''onde'', ''fica'', ''local'', ''endere'' @ [CHR 0xE7] @ ''o'', ''bairro''] lower
        then Reply_location
      else if someIncluded
          [''pix'', ''cart'' @ [CHR 0xE3] @ ''o'', ''dinheiro'', ''pagamento''] lower
        then Reply_payment_methods
      else if list_ex (\<lambda>v. lower = v \<or> startsWith lower (v @ '' ''))
          [''oi'', ''ol'' @ [CHR 0xE1], ''ola'', ''bom dia'', ''boa tarde'', ''boa noite'', ''ei'']
        then Reply_greeting
      else if someIncluded [''obrigado'', ''valeu'', ''tks''] lower
        then Reply_thanks
      else Reply_default)"

subsection \<open>sanitizeInput and isValidResponse\<close>

definition sanitizeInput :: "string \<Rightarrow> string" where
  "sanitizeInput txt =
     (if txt = [] then [] else collapseSpace (stripAngle (take 500 (trim txt))))"

definition isValidResponse :: "string \<Rightarrow> bool" where
  "isValidResponse txt =
     (if txt = [] then False
      else if length txt < 2 then False
      else if includesStr txt ''<html'' \<or> includesStr txt ''<!DOCTYPE'' then False
      else if includesStr (toLowerCase txt) ''error'' \<and> length txt < 50 then False
      else if includesStr txt ''undefined'' \<and> length txt < 20 then False
      else True)"

subsection \<open>sendMessage\<close>

text \<open>
  The text endpoint is a parameter: the outcome of the fetch of each attempt, numbered
  from 0. The request body (system prompt, the last six history turns and the message)
  does not influence the control flow of \<^verbatim>\<open>sendMessage\<close> and is not modelled. An outcome
  is the abort of the 15-second timer, any other rejection of the fetch or of reading
  the body, or a response with its status and body.
\<close>

datatype fetch_outcome = Aborted | Rejected | Response nat string

text \<open>What the \<^verbatim>\<open>try\<close> block throws, and what the loop does besides returning.\<close>

datatype thrown = AbortError | FetchError | NetworkError nat | APIError

datatype event = Fetch nat | Delay nat | Fallback

datatype reply = Plain string | Canned local_reply

definition maxRetries :: nat where
  "maxRetries = 2"

definition retryDelay :: nat where
  "retryDelay = 1000"

text \<open>\<^verbatim>\<open>response.ok\<close>: a status from 200 to 299.\<close>

definition responseOk :: "nat \<Rightarrow> bool" where
  "responseOk status = (200 \<le> status \<and> status \<le> 299)"

text \<open>One pass through the \<^verbatim>\<open>try\<close> block: the text to return, or the error thrown.\<close>

definition attemptOnce :: "fetch_outcome \<Rightarrow> thrown + string" where
  "attemptOnce out =
     (case out of
        Aborted \<Rightarrow> Inl AbortError
      | Rejected \<Rightarrow> Inl FetchError
      | Response status body \<Rightarrow>
          if \<not> responseOk status then Inl (NetworkError status)
          else if \<not> isValidResponse body then Inl APIError
          else Inr (trim body))"

text \<open>The two \<^verbatim>\<open>break\<close> conditions of the \<^verbatim>\<open>catch\<close> block.\<close>

definition noRetry :: "thrown \<Rightarrow> bool" where
  "noRetry e =
     (case e of
        AbortError \<Rightarrow> True
      | NetworkError status \<Rightarrow> status \<noteq> 0 \<and> 400 \<le> status \<and> status < 500
      | _ \<Rightarrow> False)"

function sendLoop ::
  "(nat \<Rightarrow> fetch_outcome) \<Rightarrow> string \<Rightarrow> nat \<Rightarrow> event list \<Rightarrow> reply \<times> event list" where
  "sendLoop api sanitizedMessage attempt evs =
     (if attempt \<le> maxRetries then
        (case attemptOnce (api attempt) of
           Inr txt \<Rightarrow> (Plain txt, evs @ [Fetch attempt])
         | Inl e \<Rightarrow>
             if noRetry e then
               (Canned (getLocalResponse sanitizedMessage), evs @ [Fetch attempt, Fallback])
             else if attempt < maxRetries then
               sendLoop api sanitizedMessage (attempt + 1)
                 (evs @ [Fetch attempt, Delay (retryDelay * 2 ^ attempt)])
             else
               sendLoop api sanitizedMessage (attempt + 1) (evs @ [Fetch attempt]))
      else (Canned (getLocalResponse sanitizedMessage), evs @ [Fallback]))"
  by pat_completeness auto
termination
  by (relation "measure (\<lambda>(api, m, attempt, evs). Suc maxRetries - attempt)") auto

declare sendLoop.simps [simp del]

definition sendMessage :: "(nat \<Rightarrow> fetch_outcome) \<Rightarrow> string \<Rightarrow> reply \<times> event list" where
  "sendMessage api message =
     (let sanitizedMessage = sanitizeInput message in
      if sanitizedMessage = [] then (Plain ''Desculpe, nao entendi. Pode repetir?'', [])
      else sendLoop api sanitizedMessage 0 [])"

text \<open>The number of fetches and the backoff delays (in milliseconds) of a run.\<close>

definition attempts :: "event list \<Rightarrow> nat" where
  "attempts evs = length (filter (\<lambda>e. case e of Fetch _ \<Rightarrow> True | _ \<Rightarrow> False) evs)"

definition delays :: "event list \<Rightarrow> nat list" where
  "delays evs = concat (map (\<lambda>e. case e of Delay ms \<Rightarrow> [ms] | _ \<Rightarrow> []) evs)"

text \<open>
  Vocabulary for the retry bound: an attempt fails when its \<^verbatim>\<open>try\<close> block throws; an
  outcome is a timeout or a client error when it is the abort, or a response whose
  status is in the 4xx class.
\<close>

definition attemptFails :: "fetch_outcome \<Rightarrow> bool" where
  "attemptFails out = (case attemptOnce out of Inl _ \<Rightarrow> True | Inr _ \<Rightarrow> False)"

definition timeoutOrClientError :: "fetch_outcome \<Rightarrow> bool" where
  "timeoutOrClientError out =
     (case out of
        Aborted \<Rightarrow> True
      | Rejected \<Rightarrow> False
      | Response status _ \<Rightarrow> 400 \<le> status \<and> status < 500)"

text \<open>Two concrete endpoints: one answers 500 and then 404, one rejects every fetch.\<close>

definition serverErrorThenNotFound :: "nat \<Rightarrow> fetch_outcome" where
  "serverErrorThenNotFound k = (if k = 0 then Response 500 [] else Response 404 [])"

definition alwaysRejected :: "nat \<Rightarrow> fetch_outcome" where
  "alwaysRejected k = Rejected"

section \<open>Static configuration (src/constants.ts, src/types.ts)\<close>

text \<open>
  Prices are JavaScript numbers. Every price of \<^verbatim>\<open>MENU\<close> and the delivery fee are whole
  numbers of reais, and the cart holds only items of \<^verbatim>\<open>MENU\<close> with quantities up to 99,
  so the sums stay far below \<open>2^53\<close>, where double arithmetic on whole numbers is
  exact; prices and quantities are modelled as \<^typ>\<open>int\<close>.
\<close>

record menu_item =
  item_id :: nat
  item_name :: string
  price :: int
  category :: string

record cart_item = menu_item +
  quantity :: int

record user_data =
  name :: string
  address :: string
  paymentMethod :: string

definition DELIVERY_FEE :: int where
  "DELIVERY_FEE = 7"

definition MENU :: "menu_item list" where
  "MENU =
     [\<lparr>item_id = 1, item_name = ''X-Burger Cl'' @ [CHR 0xE1] @ ''ssico'', price = 25,
        category = ''Burgers''\<rparr>,
      \<lparr>item_id = 2, item_name = ''X-Bacon Cheddar'', price = 32, category = ''Burgers''\<rparr>,
      \<lparr>item_id = 3, item_name = ''Smash Duplo'', price = 28, category = ''Burgers''\<rparr>,
      \<lparr>item_id = 4, item_name = ''Vegetariano Soul'', price = 30, category = ''Burgers''\<rparr>,
      \<lparr>item_id = 5, item_name = ''Batata Frita'', price = 15, category = ''Acompanhamentos''\<rparr>,
      \<lparr>item_id = 6, item_name = ''Onion Rings'', price = 18, category = ''Acompanhamentos''\<rparr>,
      \<lparr>item_id = 7, item_name = ''Nuggets (10 unidades)'', price = 20,
        category = ''Acompanhamentos''\<rparr>,
      \<lparr>item_id = 8, item_name = ''Refrigerante Lata'', price = 6, category = ''Bebidas''\<rparr>,
      \<lparr>item_id = 9, item_name = ''Suco Natural'', price = 10, category = ''Bebidas''\<rparr>,
      \<lparr>item_id = 10, item_name = [CHR 0xC1] @ ''gua Mineral'', price = 4,
        category = ''Bebidas''\<rparr>]"

section \<open>Notification center (src/App.tsx)\<close>

text \<open>
  The identity of a notification is \<^verbatim>\<open>Date.now().toString()\<close>, read back with
  \<^verbatim>\<open>parseInt\<close> by the sweep; the model keeps the timestamp itself, in milliseconds.
\<close>

datatype severity = Error | Warning | Success | Info

record notification =
  n_id :: int
  n_type :: severity
  n_message :: string
  dismissible :: bool

text \<open>\<^verbatim>\<open>prev.slice(-3)\<close>: the last three elements, or all of them when there are fewer.\<close>

definition sliceLast :: "nat \<Rightarrow> 'a list \<Rightarrow> 'a list" where
  "sliceLast k xs = drop (length xs - k) xs"

definition showNotification ::
  "int \<Rightarrow> severity \<Rightarrow> string \<Rightarrow> bool \<Rightarrow> notification list \<Rightarrow> notification list" where
  "showNotification now ty message dism prev =
     (if list_ex (\<lambda>n. n_message n = message) prev then prev
      else sliceLast 3 prev @
           [\<lparr>n_id = now, n_type = ty, n_message = message, dismissible = dism\<rparr>])"

definition dismissNotification :: "int \<Rightarrow> notification list \<Rightarrow> notification list" where
  "dismissNotification ident prev = filter (\<lambda>n. n_id n \<noteq> ident) prev"

text \<open>The body of the one-second interval that removes expired notifications.\<close>

definition sweepNotifications :: "int \<Rightarrow> notification list \<Rightarrow> notification list" where
  "sweepNotifications now prev = filter (\<lambda>n. \<not> dismissible n \<or> now - n_id n < 5000) prev"

datatype notification_op =
    Show int severity string bool
  | Dismiss int
  | Sweep int

fun applyNotificationOp :: "notification_op \<Rightarrow> notification list \<Rightarrow> notification list" where
  "applyNotificationOp (Show now ty message dism) prev = showNotification now ty message dism prev"
| "applyNotificationOp (Dismiss ident) prev = dismissNotification ident prev"
| "applyNotificationOp (Sweep now) prev = sweepNotifications now prev"

definition runNotificationOps :: "notification_op list \<Rightarrow> notification list \<Rightarrow> notification list" where
  "runNotificationOps ops start = foldl (\<lambda>prev op. applyNotificationOp op prev) start ops"

section \<open>Cart engine (src/App.tsx)\<close>

text \<open>\<^verbatim>\<open>{ ...item, quantity: 1 }\<close>.\<close>

definition newCartItem :: "menu_item \<Rightarrow> cart_item" where
  "newCartItem item =
     \<lparr>item_id = item_id item, item_name = item_name item, price = price item,
      category = category item, quantity = 1\<rparr>"

text \<open>Both operations take the \<^verbatim>\<open>isChatClosed\<close> flag of the render they were created in.\<close>

definition addToCart :: "bool \<Rightarrow> menu_item \<Rightarrow> cart_item list \<Rightarrow> cart_item list" where
  "addToCart isChatClosed item prev =
     (if isChatClosed then prev
      else
        (case find (\<lambda>i. item_id i = item_id item) prev of
           Some existing \<Rightarrow>
             if quantity existing \<ge> 99 then prev
             else map (\<lambda>i. if item_id i = item_id item then i\<lparr>quantity := quantity i + 1\<rparr> else i) prev
         | None \<Rightarrow> prev @ [newCartItem item]))"

definition removeFromCart :: "bool \<Rightarrow> nat \<Rightarrow> cart_item list \<Rightarrow> cart_item list" where
  "removeFromCart isChatClosed ident prev =
     (if isChatClosed then prev
      else filter (\<lambda>i. quantity i > 0)
             (map (\<lambda>i. if item_id i = ident then i\<lparr>quantity := quantity i - 1\<rparr> else i) prev))"

definition subtotalValue :: "cart_item list \<Rightarrow> int" where
  "subtotalValue cart = foldl (\<lambda>acc item. acc + price item * quantity item) 0 cart"

definition totalValue :: "cart_item list \<Rightarrow> int" where
  "totalValue cart = subtotalValue cart + (if subtotalValue cart > 0 then DELIVERY_FEE else 0)"

datatype cart_op = Add menu_item | Remove nat

fun applyCartOp :: "bool \<Rightarrow> cart_op \<Rightarrow> cart_item list \<Rightarrow> cart_item list" where
  "applyCartOp isChatClosed (Add item) prev = addToCart isChatClosed item prev"
| "applyCartOp isChatClosed (Remove ident) prev = removeFromCart isChatClosed ident prev"

definition runCartOps :: "bool \<Rightarrow> cart_op list \<Rightarrow> cart_item list \<Rightarrow> cart_item list" where
  "runCartOps isChatClosed ops start = foldl (\<lambda>prev op. applyCartOp isChatClosed op prev) start ops"

text \<open>
  The invariant of the cart: one line per item identity, every quantity from 1 to 99.
\<close>

definition cartInv :: "cart_item list \<Rightarrow> bool" where
  "cartInv cart =
     (distinct (map item_id cart) \<and> (\<forall>ci\<in>set cart. 1 \<le> quantity ci \<and> quantity ci \<le> 99))"

text \<open>Concrete carts and items for the examples: entries 1 and 2 of \<^verbatim>\<open>MENU\<close>.\<close>

definition xBurger :: menu_item where
  "xBurger = \<lparr>item_id = 1, item_name = ''X-Burger Cl'' @ [CHR 0xE1] @ ''ssico'', price = 25,
     category = ''Burgers''\<rparr>"

definition xBacon :: menu_item where
  "xBacon = \<lparr>item_id = 2, item_name = ''X-Bacon Cheddar'', price = 32, category = ''Burgers''\<rparr>"

definition twoBurgers :: "cart_item list" where
  "twoBurgers = [(newCartItem xBurger)\<lparr>quantity := 2\<rparr>]"

definition fullBacon :: "cart_item list" where
  "fullBacon = [(newCartItem xBacon)\<lparr>quantity := 99\<rparr>]"

text \<open>Four visible notifications, for the examples.\<close>

definition fourNotes :: "notification list" where
  "fourNotes =
     [\<lparr>n_id = 1, n_type = Info, n_message = ''a'', dismissible = True\<rparr>,
      \<lparr>n_id = 2, n_type = Error, n_message = ''b'', dismissible = False\<rparr>,
      \<lparr>n_id = 3, n_type = Warning, n_message = ''c'', dismissible = True\<rparr>,
      \<lparr>n_id = 4, n_type = Success, n_message = ''d'', dismissible = True\<rparr>]"

section \<open>Conversation flow controller (src/App.tsx)\<close>

subsection \<open>State\<close>

datatype flow_step =
    Ordering | Ask_name | Ask_address | Ask_address_number | Confirm_address
  | Ask_payment | Review | Edit_info | Finished

datatype edit_field = Edit_name | Edit_address | Edit_payment

datatype role = Bot | User

text \<open>
  The text of a chat message. Plain texts are kept as the sanitized string that
  \<^verbatim>\<open>addMessage\<close> stores. Three templates carry emoji outside the code units of
  \<^typ>\<open>string\<close> and are kept as a constructor with the values the template interpolates:
  the order review (cart lines, user data, total), the current-information message of
  \<^verbatim>\<open>goBackToEditing\<close>, and a canned reply of the local responder. The random identity and
  the clock time of a message are not modelled.
\<close>

datatype body =
    Text string
  | Review_summary "cart_item list" user_data int
  | Current_info user_data
  | Local_reply local_reply

record message =
  msg_role :: role
  msg_text :: body

record app_state =
  messages :: "message list"
  isTyping :: bool
  cart :: "cart_item list"
  userData :: user_data
  pendingAddress :: string
  flowStep :: flow_step
  isChatClosed :: bool
  isSearchingCEP :: bool
  editField :: "edit_field option"
  notifications :: "notification list"
  isOnline :: bool

subsection \<open>Environment\<close>

text \<open>
  The JSON object of the address lookup, with its optional fields, and the outcome of
  the lookup request: the abort of the 10-second timer, any other failure (rejected
  fetch, body that is not JSON), or a response with its status and parsed body.
\<close>

record viacep_data =
  erro :: bool
  logradouro :: "string option"
  bairro :: "string option"
  localidade :: "string option"
  uf :: "string option"

datatype cep_response = Cep_aborted | Cep_failed | Cep_response nat viacep_data

record env =
  now :: int
  cepLookup :: "string \<Rightarrow> cep_response"
  textApi :: "nat \<Rightarrow> fetch_outcome"

subsection \<open>Messages and notifications\<close>

definition addMessage :: "role \<Rightarrow> string \<Rightarrow> app_state \<Rightarrow> app_state" where
  "addMessage r txt s =
     s\<lparr>messages := messages s @ [\<lparr>msg_role = r, msg_text = Text (sanitizeDisplayText txt)\<rparr>]\<rparr>"

definition addBody :: "role \<Rightarrow> body \<Rightarrow> app_state \<Rightarrow> app_state" where
  "addBody r b s = s\<lparr>messages := messages s @ [\<lparr>msg_role = r, msg_text = b\<rparr>]\<rparr>"

definition addReply :: "reply \<Rightarrow> app_state \<Rightarrow> app_state" where
  "addReply rep s =
     (case rep of Plain txt \<Rightarrow> addMessage Bot txt s | Canned c \<Rightarrow> addBody Bot (Local_reply c) s)"

text \<open>\<^verbatim>\<open>showNotification(type, message)\<close> with the default \<^verbatim>\<open>dismissible = true\<close>.\<close>

definition notify :: "env \<Rightarrow> severity \<Rightarrow> string \<Rightarrow> app_state \<Rightarrow> app_state" where
  "notify e ty message s =
     s\<lparr>notifications := showNotification (now e) ty message True (notifications s)\<rparr>"

definition showReviewMessage :: "user_data \<Rightarrow> app_state \<Rightarrow> app_state" where
  "showReviewMessage d s = addBody Bot (Review_summary (cart s) d (totalValue (cart s))) s"

text \<open>\<^verbatim>\<open>x || fallback\<close> and \<^verbatim>\<open>${x}\<close> for an optional string.\<close>

definition orElse :: "string option \<Rightarrow> string \<Rightarrow> string" where
  "orElse x fallback = (case x of None \<Rightarrow> fallback | Some v \<Rightarrow> if v = [] then fallback else v)"

definition interpolate :: "string option \<Rightarrow> string" where
  "interpolate x = (case x of None \<Rightarrow> ''undefined'' | Some v \<Rightarrow> v)"

subsection \<open>Postal-code detection and lookup\<close>

text \<open>
  \<^verbatim>\<open>/\d{5}-?\d{3}/\<close> at one start position (the matched text, if any), its leftmost
  match in the input, and the whole expression
  \<^verbatim>\<open>match(/\d{5}-?\d{3}/) || match(/^\d{8}$/)\<close>.
\<close>

definition matchCEPAt :: "string \<Rightarrow> string option" where
  "matchCEPAt s =
     (if length s \<ge> 5 \<and> list_all isDigit (take 5 s) then
        (let r = drop 5 s;
             dash = (case r of [] \<Rightarrow> [] | x # _ \<Rightarrow> if x = CHR ''-'' then ''-'' else []);
             r' = drop (length dash) r
         in if length r' \<ge> 3 \<and> list_all isDigit (take 3 r')
            then Some (take 5 s @ dash @ take 3 r') else None)
      else None)"

fun firstCEP :: "string \<Rightarrow> string option" where
  "firstCEP [] = None"
| "firstCEP (c # cs) =
     (case matchCEPAt (c # cs) of Some m \<Rightarrow> Some m | None \<Rightarrow> firstCEP cs)"

definition cepMatch :: "string \<Rightarrow> string option" where
  "cepMatch s =
     (case firstCEP s of
        Some m \<Rightarrow> Some m
      | None \<Rightarrow> if length s = 8 \<and> list_all isDigit s then Some s else None)"

definition handleCEPAction :: "env \<Rightarrow> string \<Rightarrow> app_state \<Rightarrow> viacep_data option \<times> app_state" where
  "handleCEPAction e cep s =
     (let validation = validateCEP cep in
      if \<not> cep_valid validation then
        (None, notify e Error (orElse (cep_error validation) ''CEP invalido'') s)
      else if \<not> isOnline s then
        (None, notify e Error ''Sem conexao. Verifique sua internet.'' s)
      else
        (case cepLookup e (cleanCEP validation) of
           Cep_aborted \<Rightarrow>
             (None, (notify e Error ''Tempo esgotado. Tente novamente ou digite o endereco.'' s)
                      \<lparr>isSearchingCEP := False\<rparr>)
         | Cep_failed \<Rightarrow>
             (None, (notify e Error ''Erro ao buscar CEP. Digite o endereco completo.'' s)
                      \<lparr>isSearchingCEP := False\<rparr>)
         | Cep_response status d \<Rightarrow>
             if \<not> responseOk status then
               (None, (notify e Error ''Erro ao buscar CEP. Digite o endereco completo.'' s)
                        \<lparr>isSearchingCEP := False\<rparr>)
             else if erro d then
               (None, (notify e Error ''CEP nao encontrado. Verifique e tente novamente.'' s)
                        \<lparr>isSearchingCEP := False\<rparr>)
             else if orElse (logradouro d) [] = [] \<and> orElse (bairro d) [] = []
                     \<and> orElse (localidade d) [] = [] then
               (None, (notify e Warning
                         ''CEP encontrado, mas sem endereco completo. Digite manualmente.'' s)
                        \<lparr>isSearchingCEP := False\<rparr>)
             else (Some d, s\<lparr>isSearchingCEP := False\<rparr>)))"

subsection \<open>Joining the resolved address\<close>

text \<open>\<^verbatim>\<open>replace(/^,\s*/, '')\<close> and \<^verbatim>\<open>replace(/,\s*,/g, ',')\<close>.\<close>

definition stripLeadingComma :: "string \<Rightarrow> string" where
  "stripLeadingComma s =
     (case s of [] \<Rightarrow> [] | c # cs \<Rightarrow> if c = CHR '','' then dropWhile isSpace cs else s)"

function collapseCommas :: "string \<Rightarrow> string" where
  "collapseCommas [] = []"
| "collapseCommas (c # cs) =
     (if c = CHR '','' \<and> headOpt (dropWhile isSpace cs) = Some (CHR '','')
      then CHR '','' # collapseCommas (tl (dropWhile isSpace cs))
      else c # collapseCommas cs)"
  by pat_completeness auto
termination
proof (relation "measure length")
  fix c :: char and cs :: string
  have "length (tl (dropWhile isSpace cs)) \<le> length cs"
    using length_dropWhile_le [of isSpace cs] by simp
  then show "(tl (dropWhile isSpace cs), c # cs) \<in> measure length"
    by simp
qed simp_all

definition baseAddress :: "viacep_data \<Rightarrow> string" where
  "baseAddress d =
     collapseCommas (stripLeadingComma
       (orElse (logradouro d) [] @ '', '' @ orElse (bairro d) [] @ '', '' @
        orElse (localidade d) [] @ '' - '' @ orElse (uf d) []))"

subsection \<open>handleBotResponse\<close>

text \<open>
  Each branch of \<^verbatim>\<open>handleBotResponse\<close> is one definition, taking the sanitized input and
  the state the handler was created in. State setters act on disjoint fields, so only
  the order of the chat messages is kept. The branches for the edit target come first.
\<close>

definition editInfoName :: "env \<Rightarrow> string \<Rightarrow> app_state \<Rightarrow> app_state" where
  "editInfoName e sanitizedInput s =
     (let nameValidation = validateName sanitizedInput in
      if \<not> name_valid nameValidation then
        addMessage Bot (interpolate (name_error nameValidation) @ '' Tente novamente.'')
          (notify e Error (orElse (name_error nameValidation) ''Nome invalido'')
             (s\<lparr>isTyping := False\<rparr>))
      else
        showReviewMessage ((userData s)\<lparr>name := cleanName nameValidation\<rparr>)
          ((addMessage Bot (''Nome atualizado para *'' @ cleanName nameValidation @ ''*!'')
              (s\<lparr>userData := (userData s)\<lparr>name := cleanName nameValidation\<rparr>,
                 isTyping := False\<rparr>))
             \<lparr>editField := None, flowStep := Review\<rparr>))"

definition editInfoAddress :: "env \<Rightarrow> string \<Rightarrow> app_state \<Rightarrow> app_state" where
  "editInfoAddress e sanitizedInput s =
     (case cepMatch sanitizedInput of
        Some m \<Rightarrow>
          (case handleCEPAction e m s of
             (Some cepData, s1) \<Rightarrow>
               (addMessage Bot
                  (''Encontrei o endereco:'' @ [CHR 0x0A] @ ''*'' @ baseAddress cepData @ ''*''
                   @ [CHR 0x0A, CHR 0x0A]
                   @ ''Agora informe o **numero da casa** e complemento.'')
                  (s1\<lparr>pendingAddress := baseAddress cepData, isTyping := False\<rparr>))
                 \<lparr>flowStep := Ask_address_number\<rparr>
           | (None, s1) \<Rightarrow> s1\<lparr>isTyping := False\<rparr>)
      | None \<Rightarrow>
          (let addressValidation = validateAddress sanitizedInput in
           if \<not> address_valid addressValidation \<and> missing addressValidation = Some Missing_all then
             addMessage Bot (interpolate (address_error addressValidation) @ '' Tente novamente.'')
               (notify e Error (orElse (address_error addressValidation) ''Endereco invalido'')
                  (s\<lparr>isTyping := False\<rparr>))
           else
             showReviewMessage ((userData s)\<lparr>address := sanitizedInput\<rparr>)
               ((addMessage Bot ''Endereco atualizado!''
                   (s\<lparr>userData := (userData s)\<lparr>address := sanitizedInput\<rparr>,
                      isTyping := False\<rparr>))
                  \<lparr>editField := None, flowStep := Review\<rparr>)))"

definition editInfoPayment :: "env \<Rightarrow> string \<Rightarrow> app_state \<Rightarrow> app_state" where
  "editInfoPayment e sanitizedInput s =
     (let paymentValidation = validatePaymentMethod sanitizedInput in
      if \<not> valid paymentValidation then
        notify e Error (orElse (error paymentValidation) ''Forma de pagamento invalida'')
          (s\<lparr>isTyping := False\<rparr>)
      else
        showReviewMessage ((userData s)\<lparr>paymentMethod := sanitizedInput\<rparr>)
          ((addMessage Bot (''Forma de pagamento atualizada para *'' @ sanitizedInput @ ''*!'')
              (s\<lparr>userData := (userData s)\<lparr>paymentMethod := sanitizedInput\<rparr>,
                 isTyping := False\<rparr>))
             \<lparr>editField := None, flowStep := Review\<rparr>))"

text \<open>The branches of the primary collection sequence.\<close>

definition askName :: "env \<Rightarrow> string \<Rightarrow> app_state \<Rightarrow> app_state" where
  "askName e sanitizedInput s =
     (let nameValidation = validateName sanitizedInput in
      if \<not> name_valid nameValidation then
        addMessage Bot (orElse (name_error nameValidation) ''Por favor, digite um nome valido.'')
          (notify e Warning (orElse (name_error nameValidation) ''Nome invalido'')
             (s\<lparr>isTyping := False\<rparr>))
      else
        (addMessage Bot
           (''Prazer, *'' @ cleanName nameValidation @ ''*!'' @ [CHR 0x0A]
            @ ''Qual o **endereco de entrega**? (Digite o CEP ou Nome da Rua)'')
           (s\<lparr>userData := (userData s)\<lparr>name := cleanName nameValidation\<rparr>,
              isTyping := False\<rparr>))
          \<lparr>flowStep := Ask_address\<rparr>)"

definition askAddress :: "env \<Rightarrow> string \<Rightarrow> app_state \<Rightarrow> app_state" where
  "askAddress e sanitizedInput s =
     (case cepMatch sanitizedInput of
        Some m \<Rightarrow>
          (case handleCEPAction e m s of
             (Some cepData, s1) \<Rightarrow>
               (addMessage Bot
                  (''Encontrei o endereco:'' @ [CHR 0x0A] @ ''*'' @ baseAddress cepData @ ''*''
                   @ [CHR 0x0A, CHR 0x0A] @ ''**Este endereco esta correto?**'' @ [CHR 0x0A]
                   @ ''Responda *SIM* para confirmar ou *NAO* para digitar outro.'')
                  (s1\<lparr>pendingAddress := baseAddress cepData, isTyping := False\<rparr>))
                 \<lparr>flowStep := Confirm_address\<rparr>
           | (None, s1) \<Rightarrow>
               addMessage Bot ''Nao consegui encontrar o CEP. Tente digitar o endereco completo.''
                 (s1\<lparr>isTyping := False\<rparr>))
      | None \<Rightarrow>
          (let validation = validateAddress sanitizedInput in
           if \<not> address_valid validation \<and> missing validation = Some Missing_all then
             addMessage Bot
               ''O endereco parece muito curto. Por favor, digite Rua, Bairro e Cidade.''
               (notify e Warning ''Endereco muito curto'' (s\<lparr>isTyping := False\<rparr>))
           else if \<not> address_valid validation \<and> missing validation = Some Missing_number then
             (addMessage Bot ''Entendi a rua! Agora preciso do **numero da casa**.''
                (s\<lparr>pendingAddress := sanitizedInput, isTyping := False\<rparr>))
               \<lparr>flowStep := Ask_address_number\<rparr>
           else
             (addMessage Bot (''Anotado!'' @ [CHR 0x0A] @ ''Como voce prefere **pagar**?'')
                (s\<lparr>userData := (userData s)\<lparr>address := sanitizedInput\<rparr>,
                   isTyping := False\<rparr>))
               \<lparr>flowStep := Ask_payment\<rparr>))"

definition positiveResponses :: "string list" where
  "positiveResponses =
     [''sim'', ''s'', ''yes'', ''confirmo'', ''correto'', ''isso'', ''certo'', ''ok'', ''confirmar'']"

definition negativeResponses :: "string list" where
  "negativeResponses =
     [''nao'', ''n'' @ [CHR 0xC3, CHR 0xA3] @ ''o'', ''n'', ''no'', ''errado'', ''nope'',
      ''negativo'', ''outro'']"

definition confirmAddress :: "string \<Rightarrow> app_state \<Rightarrow> app_state" where
  "confirmAddress sanitizedInput s =
     (let response = trim (toLowerCase sanitizedInput) in
      if response \<in> set positiveResponses then
        (addMessage Bot
           ''Otimo! Agora informe o **numero da casa** e complemento (ex: 123, Apto 45).''
           (s\<lparr>isTyping := False\<rparr>))
          \<lparr>flowStep := Ask_address_number\<rparr>
      else if response \<in> set negativeResponses then
        (addMessage Bot ''Sem problemas! Digite o endereco completo ou outro CEP.''
           (s\<lparr>pendingAddress := [], isTyping := False\<rparr>))
          \<lparr>flowStep := Ask_address\<rparr>
      else
        addMessage Bot
          ''Por favor, responda *SIM* para confirmar ou *NAO* para digitar outro endereco.''
          (s\<lparr>isTyping := False\<rparr>))"

definition askAddressNumber :: "env \<Rightarrow> string \<Rightarrow> app_state \<Rightarrow> app_state" where
  "askAddressNumber e sanitizedInput s =
     (let numberValidation = validateAddressNumber sanitizedInput in
      if \<not> valid numberValidation then
        addMessage Bot (orElse (error numberValidation) ''Por favor, digite o numero da casa.'')
          (notify e Warning (orElse (error numberValidation) ''Numero invalido'')
             (s\<lparr>isTyping := False\<rparr>))
      else
        (let finalAddress =
               (if pendingAddress s \<noteq> [] then pendingAddress s @ '', N '' @ sanitizedInput
                else address (userData s) @ '', N '' @ sanitizedInput)
         in (addMessage Bot
               (''Endereco completo!'' @ [CHR 0x0A] @ ''Qual a **forma de pagamento**?'')
               (s\<lparr>userData := (userData s)\<lparr>address := finalAddress\<rparr>,
                  pendingAddress := [], isTyping := False\<rparr>))
              \<lparr>flowStep := Ask_payment\<rparr>))"

definition askPayment :: "env \<Rightarrow> string \<Rightarrow> app_state \<Rightarrow> app_state" where
  "askPayment e sanitizedInput s =
     (let paymentValidation = validatePaymentMethod sanitizedInput in
      if \<not> valid paymentValidation then
        addMessage Bot ''Por favor, escolha: Pix, Cartao ou Dinheiro.''
          (notify e Warning ''Selecione uma forma de pagamento'' (s\<lparr>isTyping := False\<rparr>))
      else
        showReviewMessage ((userData s)\<lparr>paymentMethod := sanitizedInput\<rparr>)
          (s\<lparr>userData := (userData s)\<lparr>paymentMethod := sanitizedInput\<rparr>,
             isTyping := False, flowStep := Review\<rparr>))"

text \<open>The last part: free text goes to the response adapter unless the client is offline.\<close>

definition generativeReply :: "env \<Rightarrow> string \<Rightarrow> app_state \<Rightarrow> app_state" where
  "generativeReply e sanitizedInput s =
     (if \<not> isOnline s then
        addMessage Bot
          ''Estou sem conexao no momento. Use os botoes do cardapio para fazer seu pedido!''
          (s\<lparr>isTyping := False\<rparr>)
      else addReply (fst (sendMessage (textApi e) sanitizedInput)) (s\<lparr>isTyping := False\<rparr>))"

definition handleBotResponse :: "env \<Rightarrow> string \<Rightarrow> app_state \<Rightarrow> app_state" where
  "handleBotResponse e userText s0 =
     (let s = s0\<lparr>isTyping := True\<rparr>;
          sanitizedInput = sanitizeDisplayText userText
      in
      if sanitizedInput = [] then
        addMessage Bot ''Desculpe, nao entendi. Pode repetir?'' (s\<lparr>isTyping := False\<rparr>)
      else if flowStep s = Edit_info \<and> editField s = Some Edit_name then
        editInfoName e sanitizedInput s
      else if flowStep s = Edit_info \<and> editField s = Some Edit_address then
        editInfoAddress e sanitizedInput s
      else if flowStep s = Edit_info \<and> editField s = Some Edit_payment then
        editInfoPayment e sanitizedInput s
      else if flowStep s = Ask_name then askName e sanitizedInput s
      else if flowStep s = Ask_address then askAddress e sanitizedInput s
      else if flowStep s = Confirm_address then confirmAddress sanitizedInput s
      else if flowStep s = Ask_address_number then askAddressNumber e sanitizedInput s
      else if flowStep s = Ask_payment then askPayment e sanitizedInput s
      else generativeReply e sanitizedInput s)"

subsection \<open>UI actions\<close>

text \<open>
  \<^verbatim>\<open>handleSend\<close> with the text to send (the argument of the call, or the input field
  when there is none); clearing the input field is not modelled.
\<close>

definition handleSend :: "env \<Rightarrow> string \<Rightarrow> app_state \<Rightarrow> app_state" where
  "handleSend e txt s =
     (if isChatClosed s then s
      else if txt = [] \<or> length (trim txt) = 0 then s
      else handleBotResponse e txt (addMessage User txt s))"

text \<open>
  \<^verbatim>\<open>startCheckoutFlow\<close> up to the start of its 600 ms timer; the timer's callback only
  clears the typing flag and appends the question for the name.
\<close>

definition startCheckoutFlow :: "app_state \<Rightarrow> app_state" where
  "startCheckoutFlow s =
     (if length (cart s) = 0 then
        addMessage Bot ''Seu carrinho esta vazio! Adicione itens antes de finalizar.'' s
      else (addMessage User ''Fechar meu Pedido'' s)\<lparr>flowStep := Ask_name, isTyping := True\<rparr>)"

definition goBackToEditing :: "app_state \<Rightarrow> app_state" where
  "goBackToEditing s = addBody Bot (Current_info (userData s)) (s\<lparr>flowStep := Edit_info\<rparr>)"

text \<open>The four buttons shown in \<^verbatim>\<open>edit_info\<close>: name, address, payment, continue.\<close>

definition selectEditField :: "edit_field \<Rightarrow> app_state \<Rightarrow> app_state" where
  "selectEditField f s =
     (case f of
        Edit_name \<Rightarrow> addMessage Bot ''Digite o novo nome:'' (s\<lparr>editField := Some Edit_name\<rparr>)
      | Edit_address \<Rightarrow>
          addMessage Bot ''Digite o novo endereco ou CEP:'' (s\<lparr>editField := Some Edit_address\<rparr>)
      | Edit_payment \<Rightarrow>
          (addMessage Bot ''Escolha a forma de pagamento:'' (s\<lparr>editField := Some Edit_payment\<rparr>))
            \<lparr>flowStep := Ask_payment\<rparr>)"

definition continueToReview :: "app_state \<Rightarrow> app_state" where
  "continueToReview s = showReviewMessage (userData s) (s\<lparr>flowStep := Review\<rparr>)"

text \<open>
  \<^verbatim>\<open>startRedirection\<close> up to the start of its progress interval, which runs only after
  the step has become \<^verbatim>\<open>finished\<close>.
\<close>

definition startRedirection :: "env \<Rightarrow> app_state \<Rightarrow> app_state" where
  "startRedirection e s =
     (if name (userData s) = [] \<or> address (userData s) = [] \<or> paymentMethod (userData s) = [] then
        (notify e Error ''Dados incompletos. Por favor, preencha todas as informacoes.'' s)
          \<lparr>flowStep := Edit_info\<rparr>
      else if length (cart s) = 0 then
        (notify e Error ''Carrinho vazio. Adicione itens antes de finalizar.'' s)
          \<lparr>flowStep := Ordering\<rparr>
      else s\<lparr>flowStep := Finished\<rparr>)"

subsection \<open>Editing one field from the review\<close>

text \<open>
  One round of editing: \<^verbatim>\<open>goBackToEditing\<close> from the review, the button of the field,
  and the submission of a text through \<^verbatim>\<open>handleSend\<close>.
\<close>

definition editAndSubmit :: "env \<Rightarrow> edit_field \<Rightarrow> string \<Rightarrow> app_state \<Rightarrow> app_state" where
  "editAndSubmit e f txt s = handleSend e txt (selectEditField f (goBackToEditing s))"

text \<open>\<^verbatim>\<open>String.prototype.split(',')\<close>, for reading the segments of a joined address.\<close>

fun splitComma :: "string \<Rightarrow> string list" where
  "splitComma [] = [[]]"
| "splitComma (c # cs) =
     (if c = CHR '','' then [] # splitComma cs
      else (case splitComma cs of [] \<Rightarrow> [[c]] | seg # segs \<Rightarrow> (c # seg) # segs))"

text \<open>Concrete lookup results, environment and states for the examples.\<close>

definition fullData :: viacep_data where
  "fullData = \<lparr>erro = False, logradouro = Some ''Rua Chile'', bairro = Some ''Centro'',
     localidade = Some ''Salvador'', uf = Some ''BA''\<rparr>"

definition cityOnlyData :: viacep_data where
  "cityOnlyData = \<lparr>erro = False, logradouro = Some [], bairro = Some [],
     localidade = Some ''Salvador'', uf = Some ''BA''\<rparr>"

definition lookupFull :: "string \<Rightarrow> cep_response" where
  "lookupFull c = Cep_response 200 fullData"

definition lookupCityOnly :: "string \<Rightarrow> cep_response" where
  "lookupCityOnly c = Cep_response 200 cityOnlyData"

definition exampleEnv :: env where
  "exampleEnv = \<lparr>now = 1000, cepLookup = lookupFull, textApi = alwaysRejected\<rparr>"

definition cityOnlyEnv :: env where
  "cityOnlyEnv = \<lparr>now = 1000, cepLookup = lookupCityOnly, textApi = alwaysRejected\<rparr>"

definition reviewState :: app_state where
  "reviewState =
     \<lparr>messages = [], isTyping = False, cart = twoBurgers,
      userData = \<lparr>name = ''Ana'', address = ''Rua A, 1'', paymentMethod = ''Pix''\<rparr>,
      pendingAddress = [], flowStep = Review, isChatClosed = False, isSearchingCEP = False,
      editField = None, notifications = [], isOnline = True\<rparr>"

definition editing :: "edit_field \<Rightarrow> app_state" where
  "editing f = reviewState\<lparr>flowStep := Edit_info, editField := Some f\<rparr>"

definition askingAddress :: app_state where
  "askingAddress = reviewState\<lparr>flowStep := Ask_address\<rparr>"

definition emptyCartState :: app_state where
  "emptyCartState = reviewState\<lparr>cart := []\<rparr>"

definition noNameState :: app_state where
  "noNameState = reviewState\<lparr>userData := (userData reviewState)\<lparr>name := []\<rparr>\<rparr>"

text \<open>
  When a sanitized input is accepted as the new value of the edited field (the
  conditions under which the three edit branches reach their last part), and the user
  data it is stored into.
\<close>

definition acceptedEdit :: "edit_field \<Rightarrow> string \<Rightarrow> bool" where
  "acceptedEdit f sanitizedInput =
     (case f of
        Edit_name \<Rightarrow> name_valid (validateName sanitizedInput)
      | Edit_address \<Rightarrow>
          cepMatch sanitizedInput = None \<and>
          \<not> (\<not> address_valid (validateAddress sanitizedInput) \<and>
             missing (validateAddress sanitizedInput) = Some Missing_all)
      | Edit_payment \<Rightarrow> valid (validatePaymentMethod sanitizedInput))"

definition storeEdit :: "edit_field \<Rightarrow> string \<Rightarrow> user_data \<Rightarrow> user_data" where
  "storeEdit f sanitizedInput u =
     (case f of
        Edit_name \<Rightarrow> u\<lparr>name := cleanName (validateName sanitizedInput)\<rparr>
      | Edit_address \<Rightarrow> u\<lparr>address := sanitizedInput\<rparr>
      | Edit_payment \<Rightarrow> u\<lparr>paymentMethod := sanitizedInput\<rparr>)"

section \<open>Verified properties\<close>

subsection \<open>Postal-code validator\<close>

lemma digits_filter: "list_all isDigit (filter isDigit s)"
  by (simp add: list_all_iff)

lemma replicate8: "replicate 8 c = c # replicate 7 c"
  by (simp add: numeral_eq_Suc)

lemma repeatedDigit_iff:
  "list_all isDigit d \<Longrightarrow> length d = 8 \<Longrightarrow> repeatedDigit d = (\<exists>c. d = replicate 8 c)"
  by (cases d) (auto simp: repeatedDigit_def replicate8)

lemma allZeros_repeated: "length d = 8 \<Longrightarrow> allZeros d \<Longrightarrow> d = replicate 8 (CHR ''0'')"
  unfolding allZeros_def list_all_iff
  by (metis replicate_length_same)

lemma digitValue_le: "isDigit c \<Longrightarrow> digitValue c \<le> 9"
  by (auto simp: isDigit_def digitValue_def)

lemma first_digit_ok:
  "list_all isDigit d \<Longrightarrow> \<not> (case d of [] \<Rightarrow> False | c # _ \<Rightarrow> digitValue c > 9)"
  by (cases d) (auto dest: digitValue_le)

lemma invalidPatterns_iff:
  assumes "list_all isDigit d" "length d = 8"
  shows "list_ex (\<lambda>pattern. pattern d) invalidPatterns =
         ((\<exists>c. d = replicate 8 c) \<or> d = ''12345678'' \<or> d = ''87654321'')"
proof -
  have z: "allZeros d \<Longrightarrow> \<exists>c. d = replicate 8 c"
    using allZeros_repeated [OF assms(2)] by blast
  have o: "eightOnes d \<Longrightarrow> \<exists>c. d = replicate 8 c"
    by (auto simp: eightOnes_def)
  show ?thesis
    using z o repeatedDigit_iff [OF assms]
    by (auto simp: invalidPatterns_def)
qed

text \<open>
  C1. For every input string, \<open>validateCEP\<close> answers valid exactly when the digits that
  remain after stripping every non-digit are 8 in number and are neither one digit
  repeated (which covers all zeros and all ones), nor \<open>12345678\<close>, nor \<open>87654321\<close>;
  and a valid result carries exactly those 8 digits as the normalized code.
\<close>

theorem validateCEP_valid_iff:
  "cep_valid (validateCEP s) =
     (length (filter isDigit s) = 8
      \<and> \<not> (\<exists>c. filter isDigit s = replicate 8 c)
      \<and> filter isDigit s \<noteq> ''12345678''
      \<and> filter isDigit s \<noteq> ''87654321'')
   \<and> (cep_valid (validateCEP s) \<longrightarrow>
        cleanCEP (validateCEP s) = filter isDigit s
        \<and> length (cleanCEP (validateCEP s)) = 8
        \<and> list_all isDigit (cleanCEP (validateCEP s)))"
proof (cases "length (filter isDigit s) = 8")
  case True
  then have ne: "s \<noteq> []" "filter isDigit s \<noteq> []" by auto
  note pat = invalidPatterns_iff [OF digits_filter True]
  note fd = first_digit_ok [OF digits_filter, of s]
  show ?thesis
    using True ne pat fd digits_filter [of s]
    by (simp add: validateCEP_def Let_def)
next
  case False
  then show ?thesis
    by (simp add: validateCEP_def Let_def)
qed

theorem validateCEP_valid_iff_witness:
  "cep_valid (validateCEP ''01001-000'') \<and> cleanCEP (validateCEP ''01001-000'') = ''01001000''
   \<and> \<not> cep_valid (validateCEP ''00000-000'')"
  using validateCEP_valid_iff [of "''01001-000''"] validateCEP_valid_iff [of "''00000-000''"]
  by (simp add: isDigit_def numeral_eq_Suc)

subsection \<open>Retry policy of sendMessage\<close>

lemma attemptFails_cases:
  "attemptFails out \<Longrightarrow> \<exists>e. attemptOnce out = Inl e"
  by (auto simp: attemptFails_def split: sum.splits)

lemma noRetry_iff:
  "attemptOnce out = Inl e \<Longrightarrow> noRetry e = timeoutOrClientError out"
  by (auto simp: attemptOnce_def noRetry_def timeoutOrClientError_def responseOk_def
      split: fetch_outcome.splits if_splits)

lemma sendLoop_stop:
  "attempt \<le> maxRetries \<Longrightarrow> attemptFails (api attempt) \<Longrightarrow> timeoutOrClientError (api attempt) \<Longrightarrow>
   sendLoop api m attempt evs = (Canned (getLocalResponse m), evs @ [Fetch attempt, Fallback])"
  by (subst sendLoop.simps) (auto simp: noRetry_iff dest!: attemptFails_cases)

lemma sendLoop_retry:
  "attempt < maxRetries \<Longrightarrow> attemptFails (api attempt) \<Longrightarrow> \<not> timeoutOrClientError (api attempt) \<Longrightarrow>
   sendLoop api m attempt evs =
     sendLoop api m (attempt + 1) (evs @ [Fetch attempt, Delay (retryDelay * 2 ^ attempt)])"
  by (subst sendLoop.simps) (auto simp: noRetry_iff dest!: attemptFails_cases)

lemma sendLoop_done:
  "maxRetries < attempt \<Longrightarrow>
   sendLoop api m attempt evs = (Canned (getLocalResponse m), evs @ [Fallback])"
  by (subst sendLoop.simps) simp

lemma sendLoop_last:
  "attempt = maxRetries \<Longrightarrow> attemptFails (api attempt) \<Longrightarrow> \<not> timeoutOrClientError (api attempt) \<Longrightarrow>
   sendLoop api m attempt evs = (Canned (getLocalResponse m), evs @ [Fetch attempt, Fallback])"
  by (subst sendLoop.simps) (auto simp: noRetry_iff sendLoop_done dest!: attemptFails_cases)

lemma sanitize_oi: "sanitizeInput ''oi'' = ''oi''"
  by (simp add: sanitizeInput_def trim_def isSpace_def stripAngle_def)

text \<open>
  C2, as stated, fails twice. The endpoint that answers 500 and then 404 fails at every
  attempt and its first failure is neither a timeout nor a 4xx, yet the loop stops after
  2 fetches; and for a message whose sanitized form is empty no fetch is made at all.
\<close>

theorem sendMessage_retry_counterexample:
  "attemptFails (serverErrorThenNotFound 0) \<and> attemptFails (serverErrorThenNotFound 1)
   \<and> attemptFails (serverErrorThenNotFound 2)
   \<and> \<not> timeoutOrClientError (serverErrorThenNotFound 0)
   \<and> attempts (snd (sendMessage serverErrorThenNotFound ''oi'')) = 2
   \<and> attemptFails (alwaysRejected 0)
   \<and> attempts (snd (sendMessage alwaysRejected ''<>'')) = 0"
  by code_simp

text \<open>
  C2, amended. For every message whose sanitized form is not empty, sent against an
  endpoint whose first three attempts all fail, \<open>sendMessage\<close> returns the reply of the
  local responder for the sanitized message, and the fetches stop at the first failure
  that is a timeout or a 4xx response: 1 fetch if that is the first failure, 2 fetches
  (with one delay of 1000 ms) if it is the second, and otherwise 3 fetches with delays
  of 1000 ms and then 2000 ms.
\<close>

theorem sendMessage_retry_bound:
  assumes ne: "sanitizeInput message \<noteq> []"
    and fails: "\<forall>k<3. attemptFails (api k)"
  shows "fst (sendMessage api message) = Canned (getLocalResponse (sanitizeInput message))
    \<and> snd (sendMessage api message) =
        (if timeoutOrClientError (api 0) then [Fetch 0, Fallback]
         else if timeoutOrClientError (api 1) then [Fetch 0, Delay 1000, Fetch 1, Fallback]
         else [Fetch 0, Delay 1000, Fetch 1, Delay 2000, Fetch 2, Fallback])
    \<and> attempts (snd (sendMessage api message)) =
        (if timeoutOrClientError (api 0) then 1
         else if timeoutOrClientError (api 1) then 2 else 3)"
proof -
  have f0: "attemptFails (api 0)" and f1: "attemptFails (api 1)" and f2: "attemptFails (api 2)"
    using fails by simp_all
  have run: "sendMessage api message = sendLoop api (sanitizeInput message) 0 []"
    using ne by (simp add: sendMessage_def Let_def)
  show ?thesis
  proof (cases "timeoutOrClientError (api 0)")
    case True
    then show ?thesis
      using run sendLoop_stop [of 0 api "sanitizeInput message" "[]"] f0
      by (simp add: maxRetries_def attempts_def)
  next
    case n0: False
    have step0: "sendLoop api (sanitizeInput message) 0 [] =
        sendLoop api (sanitizeInput message) 1 [Fetch 0, Delay 1000]"
      using sendLoop_retry [of 0 api "sanitizeInput message" "[]"] f0 n0
      by (simp add: maxRetries_def retryDelay_def)
    show ?thesis
    proof (cases "timeoutOrClientError (api 1)")
      case True
      then show ?thesis
        using run step0 n0 f1
          sendLoop_stop [of 1 api "sanitizeInput message" "[Fetch 0, Delay 1000]"]
        by (simp add: maxRetries_def attempts_def)
    next
      case n1: False
      have step1: "sendLoop api (sanitizeInput message) 1 [Fetch 0, Delay 1000] =
          sendLoop api (sanitizeInput message) 2 [Fetch 0, Delay 1000, Fetch 1, Delay 2000]"
        using sendLoop_retry [of 1 api "sanitizeInput message" "[Fetch 0, Delay 1000]"] f1 n1
        by (simp add: maxRetries_def retryDelay_def numeral_2_eq_2)
      have step2: "sendLoop api (sanitizeInput message) 2 [Fetch 0, Delay 1000, Fetch 1, Delay 2000] =
          (Canned (getLocalResponse (sanitizeInput message)),
           [Fetch 0, Delay 1000, Fetch 1, Delay 2000, Fetch 2, Fallback])"
      proof (cases "timeoutOrClientError (api 2)")
        case True
        then show ?thesis
          using f2 sendLoop_stop [of 2 api "sanitizeInput message"
              "[Fetch 0, Delay 1000, Fetch 1, Delay 2000]"]
          by (simp add: maxRetries_def)
      next
        case False
        then show ?thesis
          using f2 sendLoop_last [of 2 api "sanitizeInput message"
              "[Fetch 0, Delay 1000, Fetch 1, Delay 2000]"]
          by (simp add: maxRetries_def)
      qed
      show ?thesis
        using run step0 step1 step2 n0 n1 by (simp add: attempts_def)
    qed
  qed
qed

theorem sendMessage_retry_bound_witness:
  "sanitizeInput ''oi'' \<noteq> [] \<and> attemptFails (Response 503 [])
   \<and> attemptFails Aborted \<and> attemptFails (Response 404 [])
   \<and> attempts (snd (sendMessage (\<lambda>k. Response 503 []) ''oi'')) = 3
   \<and> delays (snd (sendMessage (\<lambda>k. Response 503 []) ''oi'')) = [1000, 2000]
   \<and> attempts (snd (sendMessage (\<lambda>k. Aborted) ''oi'')) = 1
   \<and> attempts (snd (sendMessage (\<lambda>k. Response 404 []) ''oi'')) = 1"
proof -
  have ne: "sanitizeInput ''oi'' \<noteq> []" by (simp add: sanitize_oi)
  have a: "\<forall>k<3. attemptFails ((\<lambda>k. Response 503 []) k)"
    by (simp add: attemptFails_def attemptOnce_def responseOk_def)
  have b: "\<forall>k<3. attemptFails ((\<lambda>k. Aborted) k)"
    by (simp add: attemptFails_def attemptOnce_def responseOk_def)
  have c: "\<forall>k<3. attemptFails ((\<lambda>k. Response 404 []) k)"
    by (simp add: attemptFails_def attemptOnce_def responseOk_def)
  show ?thesis
    using ne sendMessage_retry_bound [OF ne a] sendMessage_retry_bound [OF ne b]
      sendMessage_retry_bound [OF ne c]
    by (simp add: timeoutOrClientError_def delays_def attempts_def
        attemptFails_def attemptOnce_def responseOk_def)
qed

subsection \<open>Empty prompts are never forwarded\<close>

text \<open>
  C10. For every input whose sanitized form (trimmed, cut to 500 characters, angle
  brackets stripped, white space collapsed) is empty, \<open>sendMessage\<close> returns the fixed
  apology at once: no fetch, no backoff delay, and no call of the local responder.
\<close>

theorem sendMessage_empty:
  assumes "sanitizeInput message = []"
  shows "sendMessage api message = (Plain ''Desculpe, nao entendi. Pode repetir?'', [])
    \<and> attempts (snd (sendMessage api message)) = 0
    \<and> delays (snd (sendMessage api message)) = []
    \<and> Fallback \<notin> set (snd (sendMessage api message))"
  using assms by (simp add: sendMessage_def attempts_def delays_def)

theorem sendMessage_empty_witness:
  "sanitizeInput ''  <> '' = []
   \<and> sendMessage (\<lambda>k. Response 200 ''Oi! Posso ajudar?'') ''  <> ''
       = (Plain ''Desculpe, nao entendi. Pode repetir?'', [])"
proof -
  have e: "sanitizeInput ''  <> '' = []"
    by (simp add: sanitizeInput_def trim_def isSpace_def stripAngle_def)
  show ?thesis
    using e sendMessage_empty [OF e, of "\<lambda>k. Response 200 ''Oi! Posso ajudar?''"] by simp
qed

subsection \<open>Cart totals\<close>

lemma foldl_sum: "foldl (\<lambda>acc item. acc + f item) a xs = a + sum_list (map f xs)" for a :: int
  by (induction xs arbitrary: a) auto

text \<open>
  C3. For every cart, the subtotal is the sum over its lines of unit price times
  quantity, the total is the subtotal plus the delivery fee when the subtotal is
  positive, and the total of the empty cart is 0.
\<close>

theorem cart_totals:
  "subtotalValue items = (\<Sum>item\<leftarrow>items. price item * quantity item)
   \<and> totalValue items = subtotalValue items + (if subtotalValue items > 0 then DELIVERY_FEE else 0)
   \<and> (subtotalValue items > 0 \<longrightarrow> totalValue items = subtotalValue items + DELIVERY_FEE)
   \<and> (items = [] \<longrightarrow> totalValue items = 0)"
  by (simp add: subtotalValue_def totalValue_def foldl_sum [where a = 0, simplified])

theorem cart_totals_witness:
  "subtotalValue twoBurgers = 50 \<and> totalValue twoBurgers = 57 \<and> totalValue [] = 0"
  using cart_totals [of twoBurgers] cart_totals [of "[]"]
  by (simp add: twoBurgers_def newCartItem_def xBurger_def DELIVERY_FEE_def)

subsection \<open>Cart quantities\<close>

lemma find_Some_mem: "find P xs = Some x \<Longrightarrow> x \<in> set xs \<and> P x"
  by (induction xs) (auto split: if_splits)

lemma map_id_bump:
  "map item_id (map (\<lambda>i. if item_id i = k then i\<lparr>quantity := g i\<rparr> else i) items) = map item_id items"
  by (induction items) auto

lemma id_bump_comp:
  "(item_id \<circ> (\<lambda>i. if item_id i = k then i\<lparr>quantity := g i\<rparr> else i)) = item_id"
  by (auto simp: fun_eq_iff)

lemma same_id_same_item:
  "distinct (map item_id items) \<Longrightarrow> a \<in> set items \<Longrightarrow> b \<in> set items \<Longrightarrow> item_id a = item_id b \<Longrightarrow> a = b"
  by (meson distinct_map inj_onD)

lemma addToCart_inv:
  assumes "cartInv items"
  shows "cartInv (addToCart closed item items)"
proof (cases "find (\<lambda>i. item_id i = item_id item) items")
  case None
  then have "item_id item \<notin> item_id ` set items"
    by (auto simp: find_None_iff)
  with assms None show ?thesis
    by (auto simp: cartInv_def addToCart_def newCartItem_def)
next
  case (Some existing)
  then have ex: "existing \<in> set items" "item_id existing = item_id item"
    using find_Some_mem [OF Some] by auto
  show ?thesis
  proof (cases "closed \<or> quantity existing \<ge> 99")
    case True
    with assms Some show ?thesis by (auto simp: addToCart_def)
  next
    case False
    have "quantity i < 99" if "i \<in> set items" "item_id i = item_id item" for i
      using same_id_same_item [of items i existing] that ex assms False
      by (auto simp: cartInv_def)
    then have q: "\<forall>i\<in>set items. item_id i = item_id item \<longrightarrow> quantity i < 99"
      by blast
    have "addToCart closed item items =
        map (\<lambda>i. if item_id i = item_id item then i\<lparr>quantity := quantity i + 1\<rparr> else i) items"
      using False Some by (simp add: addToCart_def)
    then show ?thesis
      using assms q unfolding cartInv_def
      by (auto simp: id_bump_comp)
  qed
qed

lemma removeFromCart_inv:
  assumes "cartInv items"
  shows "cartInv (removeFromCart closed k items)"
proof -
  have d: "distinct (map item_id (filter (\<lambda>i. quantity i > 0)
      (map (\<lambda>i. if item_id i = k then i\<lparr>quantity := quantity i - 1\<rparr> else i) items)))"
    using assms distinct_map_filter [of item_id
        "map (\<lambda>i. if item_id i = k then i\<lparr>quantity := quantity i - 1\<rparr> else i) items"]
    by (simp only: cartInv_def map_id_bump)
  have q: "\<forall>ci\<in>set (removeFromCart closed k items). 1 \<le> quantity ci \<and> quantity ci \<le> 99"
    using assms unfolding cartInv_def removeFromCart_def
    by (auto split: if_splits)
  show ?thesis
    using assms d q unfolding cartInv_def
    by (cases closed) (simp_all add: removeFromCart_def)
qed

lemma applyCartOp_inv: "cartInv items \<Longrightarrow> cartInv (applyCartOp closed op items)"
  by (cases op) (simp_all add: addToCart_inv removeFromCart_inv)

lemma runCartOps_inv: "cartInv items \<Longrightarrow> cartInv (runCartOps closed ops items)"
  unfolding runCartOps_def
  by (induction ops arbitrary: items) (simp_all add: applyCartOp_inv)

lemma addToCart_ceiling:
  assumes inv: "cartInv items" and mem: "ci \<in> set items" and q: "quantity ci = 99"
    and same: "item_id item = item_id ci"
  shows "addToCart closed item items = items"
proof (cases "find (\<lambda>i. item_id i = item_id item) items")
  case None
  then have "item_id ci \<noteq> item_id item"
    using mem by (simp add: find_None_iff)
  with same show ?thesis by simp
next
  case (Some existing)
  have d: "distinct (map item_id items)"
    using inv by (simp add: cartInv_def)
  have "existing \<in> set items" and "item_id existing = item_id item"
    using find_Some_mem [OF Some] by simp_all
  then have "existing = ci"
    using same_id_same_item [OF d _ mem, of existing] same by simp
  then show ?thesis
    using Some q by (simp add: addToCart_def)
qed

lemma removeFromCart_last_unit:
  assumes inv: "cartInv items" and mem: "ci \<in> set items" and q: "quantity ci = 1"
  shows "item_id ci \<notin> item_id ` set (removeFromCart False (item_id ci) items)"
proof
  assume "item_id ci \<in> item_id ` set (removeFromCart False (item_id ci) items)"
  then obtain y where y: "y \<in> set (removeFromCart False (item_id ci) items)"
      and yid: "item_id y = item_id ci"
    by auto
  from y obtain x where x: "x \<in> set items"
      and yx: "y = (if item_id x = item_id ci then x\<lparr>quantity := quantity x - 1\<rparr> else x)"
      and pos: "quantity y > 0"
    by (auto simp: removeFromCart_def)
  have xid: "item_id x = item_id ci"
    using yx yid by (simp split: if_splits)
  have d: "distinct (map item_id items)"
    using inv by (simp add: cartInv_def)
  have "x = ci"
    by (rule same_id_same_item [OF d x mem xid])
  then show False
    using yx pos q by simp
qed

text \<open>
  C4. Starting from the empty cart, after any finite sequence of add and remove
  operations every line of the cart has a quantity from 1 to 99; adding an item whose
  line is at 99 leaves the cart unchanged; and removing one unit of a line at quantity 1
  leaves no line for that item.
\<close>

theorem cart_quantity_invariant:
  "(\<forall>ci\<in>set (runCartOps closed ops []). 1 \<le> quantity ci \<and> quantity ci \<le> 99)
   \<and> (\<forall>ci\<in>set (runCartOps closed ops []). \<forall>item.
         quantity ci = 99 \<and> item_id item = item_id ci \<longrightarrow>
         addToCart False item (runCartOps closed ops []) = runCartOps closed ops [])
   \<and> (\<forall>ci\<in>set (runCartOps closed ops []).
         quantity ci = 1 \<longrightarrow>
         item_id ci \<notin> item_id ` set (removeFromCart False (item_id ci) (runCartOps closed ops [])))"
proof -
  have inv: "cartInv (runCartOps closed ops [])"
    by (rule runCartOps_inv) (simp add: cartInv_def)
  show ?thesis
    using inv addToCart_ceiling [OF inv] removeFromCart_last_unit [OF inv]
    by (auto simp: cartInv_def)
qed

lemma run99: "runCartOps False (replicate 99 (Add xBacon)) [] = fullBacon"
  by code_simp

lemma run2: "runCartOps False [Add xBurger, Add xBurger] [] = twoBurgers"
  by code_simp

lemma run1: "runCartOps False [Add xBurger, Add xBurger, Remove 1] [] = [newCartItem xBurger]"
  by code_simp

theorem cart_quantity_invariant_witness:
  "runCartOps False [Add xBurger, Add xBurger] [] = twoBurgers
   \<and> list_all (\<lambda>ci. 1 \<le> quantity ci \<and> quantity ci \<le> 99) twoBurgers
   \<and> runCartOps False (replicate 99 (Add xBacon)) [] = fullBacon
   \<and> addToCart False xBacon fullBacon = fullBacon
   \<and> runCartOps False [Add xBurger, Add xBurger, Remove 1] [] = [newCartItem xBurger]
   \<and> removeFromCart False 1 [newCartItem xBurger] = []"
proof -
  have a: "list_all (\<lambda>ci. 1 \<le> quantity ci \<and> quantity ci \<le> 99) twoBurgers"
    using cart_quantity_invariant [of False "[Add xBurger, Add xBurger]", unfolded run2]
    by (simp add: list_all_iff)
  have b: "addToCart False xBacon fullBacon = fullBacon"
    using cart_quantity_invariant [of False "replicate 99 (Add xBacon)", unfolded run99]
    by (simp add: fullBacon_def newCartItem_def)
  have c: "removeFromCart False 1 [newCartItem xBurger] = []"
    using cart_quantity_invariant [of False "[Add xBurger, Add xBurger, Remove 1]", unfolded run1]
    by (simp add: newCartItem_def xBurger_def removeFromCart_def)
  show ?thesis
    using a b c run2 run99 run1 by simp
qed

subsection \<open>Notification center\<close>

lemma length_sliceLast: "length (sliceLast k xs) \<le> k"
  by (simp add: sliceLast_def)

lemma showNotification_length:
  "length prev \<le> 4 \<Longrightarrow> length (showNotification t ty msg d prev) \<le> 4"
  using length_sliceLast [of 3 prev] by (simp add: showNotification_def)

lemma applyNotificationOp_length:
  assumes "length prev \<le> 4"
  shows "length (applyNotificationOp op prev) \<le> 4"
proof (cases op)
  case (Show t ty msg d)
  then show ?thesis
    using showNotification_length [OF assms] by simp
next
  case (Dismiss ident)
  then show ?thesis
    using le_trans [OF length_filter_le assms, of "\<lambda>n. n_id n \<noteq> ident"]
    by (simp add: dismissNotification_def)
next
  case (Sweep t)
  then show ?thesis
    using le_trans [OF length_filter_le assms, of "\<lambda>n. \<not> dismissible n \<or> t - n_id n < 5000"]
    by (simp add: sweepNotifications_def)
qed

lemma runNotificationOps_length:
  "length start \<le> 4 \<Longrightarrow> length (runNotificationOps ops start) \<le> 4"
  unfolding runNotificationOps_def
  by (induction ops arbitrary: start) (simp_all add: applyNotificationOp_length)

text \<open>
  C9. After any sequence of show, dismiss and sweep operations from the empty list,
  at most 4 notifications are visible; showing a new message while 4 are visible drops
  the oldest one; and showing a message that is already visible changes nothing.
\<close>

theorem notifications_bounded:
  "length (runNotificationOps ops []) \<le> 4
   \<and> (length prev = 4 \<and> (\<forall>n\<in>set prev. n_message n \<noteq> msg) \<longrightarrow>
        showNotification t ty msg d prev =
          tl prev @ [\<lparr>n_id = t, n_type = ty, n_message = msg, dismissible = d\<rparr>])
   \<and> ((\<exists>n\<in>set prev. n_message n = msg) \<longrightarrow> showNotification t ty msg d prev = prev)"
proof -
  have a: "length (runNotificationOps ops []) \<le> 4"
    by (rule runNotificationOps_length) simp
  have b: "sliceLast 3 prev = tl prev" if "length prev = 4"
    using that by (cases prev) (simp_all add: sliceLast_def)
  show ?thesis
    using a b by (auto simp: showNotification_def list_ex_iff)
qed

theorem notifications_bounded_witness:
  "length fourNotes = 4
   \<and> showNotification 5 Info ''e'' True fourNotes =
       tl fourNotes @ [\<lparr>n_id = 5, n_type = Info, n_message = ''e'', dismissible = True\<rparr>]
   \<and> showNotification 5 Info ''a'' True fourNotes = fourNotes"
  using notifications_bounded [of "[]" fourNotes "''e''" 5 Info True]
    notifications_bounded [of "[]" fourNotes "''a''" 5 Info True]
  by (simp add: fourNotes_def)

subsection \<open>Editing sub-mode\<close>

lemma addMessage_fields [simp]:
  "flowStep (addMessage r t s) = flowStep s"
  "editField (addMessage r t s) = editField s"
  "userData (addMessage r t s) = userData s"
  "pendingAddress (addMessage r t s) = pendingAddress s"
  "isChatClosed (addMessage r t s) = isChatClosed s"
  "cart (addMessage r t s) = cart s"
  "notifications (addMessage r t s) = notifications s"
  "isOnline (addMessage r t s) = isOnline s"
  by (simp_all add: addMessage_def)

lemma addBody_fields [simp]:
  "flowStep (addBody r b s) = flowStep s"
  "editField (addBody r b s) = editField s"
  "userData (addBody r b s) = userData s"
  "pendingAddress (addBody r b s) = pendingAddress s"
  "isChatClosed (addBody r b s) = isChatClosed s"
  "cart (addBody r b s) = cart s"
  "notifications (addBody r b s) = notifications s"
  "isOnline (addBody r b s) = isOnline s"
  "messages (addBody r b s) = messages s @ [\<lparr>msg_role = r, msg_text = b\<rparr>]"
  by (simp_all add: addBody_def)

lemma addReply_fields [simp]:
  "flowStep (addReply rep s) = flowStep s"
  "editField (addReply rep s) = editField s"
  "userData (addReply rep s) = userData s"
  "isChatClosed (addReply rep s) = isChatClosed s"
  by (simp_all add: addReply_def split: reply.splits)

lemma notify_fields [simp]:
  "flowStep (notify e ty m s) = flowStep s"
  "editField (notify e ty m s) = editField s"
  "userData (notify e ty m s) = userData s"
  "pendingAddress (notify e ty m s) = pendingAddress s"
  "isChatClosed (notify e ty m s) = isChatClosed s"
  "cart (notify e ty m s) = cart s"
  "messages (notify e ty m s) = messages s"
  "isOnline (notify e ty m s) = isOnline s"
  by (simp_all add: notify_def)

lemma showReviewMessage_fields [simp]:
  "flowStep (showReviewMessage d s) = flowStep s"
  "editField (showReviewMessage d s) = editField s"
  "userData (showReviewMessage d s) = userData s"
  "pendingAddress (showReviewMessage d s) = pendingAddress s"
  "isChatClosed (showReviewMessage d s) = isChatClosed s"
  "cart (showReviewMessage d s) = cart s"
  "messages (showReviewMessage d s) =
     messages s @ [\<lparr>msg_role = Bot, msg_text = Review_summary (cart s) d (totalValue (cart s))\<rparr>]"
  by (simp_all add: showReviewMessage_def)

lemma handleCEPAction_fields:
  assumes "handleCEPAction e m s = (r, s1)"
  shows "flowStep s1 = flowStep s \<and> editField s1 = editField s \<and> userData s1 = userData s
    \<and> isChatClosed s1 = isChatClosed s \<and> cart s1 = cart s \<and> messages s1 = messages s
    \<and> pendingAddress s1 = pendingAddress s"
  using assms
  by (auto simp: handleCEPAction_def Let_def split: if_splits cep_response.splits)

lemma validateName_empty: "\<not> name_valid (validateName [])"
  by (simp add: validateName_def)

lemma validatePayment_empty: "\<not> valid (validatePaymentMethod [])"
  by (simp add: validatePaymentMethod_def)

lemma validateAddress_empty: "missing (validateAddress []) = Some Missing_all \<and> \<not> address_valid (validateAddress [])"
  by (simp add: validateAddress_def)

lemma cepMatch_empty: "cepMatch [] = None"
  by (simp add: cepMatch_def)

lemma acceptedEdit_nonempty: "acceptedEdit f inp \<Longrightarrow> inp \<noteq> []"
  using validateName_empty validatePayment_empty validateAddress_empty
  by (cases f) (auto simp: acceptedEdit_def)

lemma editInfo_accepted:
  assumes fs: "flowStep s = Edit_info" and ef: "editField s = Some f"
    and acc: "acceptedEdit f (sanitizeDisplayText inp)"
  shows "flowStep (handleBotResponse e inp s) = Review
    \<and> editField (handleBotResponse e inp s) = None
    \<and> userData (handleBotResponse e inp s) = storeEdit f (sanitizeDisplayText inp) (userData s)
    \<and> isChatClosed (handleBotResponse e inp s) = isChatClosed s
    \<and> last (messages (handleBotResponse e inp s)) =
        \<lparr>msg_role = Bot,
         msg_text = Review_summary (cart s) (storeEdit f (sanitizeDisplayText inp) (userData s))
                      (totalValue (cart s))\<rparr>"
proof -
  have ne: "sanitizeDisplayText inp \<noteq> []"
    using acc by (rule acceptedEdit_nonempty)
  show ?thesis
  proof (cases f)
    case Edit_name
    then show ?thesis
      using fs ef acc ne
      by (simp add: handleBotResponse_def editInfoName_def Let_def acceptedEdit_def storeEdit_def)
  next
    case Edit_address
    then show ?thesis
      using fs ef acc ne
      by (simp add: handleBotResponse_def editInfoAddress_def Let_def acceptedEdit_def
          storeEdit_def)
  next
    case Edit_payment
    then show ?thesis
      using fs ef acc ne
      by (simp add: handleBotResponse_def editInfoPayment_def Let_def acceptedEdit_def
          storeEdit_def)
  qed
qed

lemma editInfo_rejected:
  assumes fs: "flowStep s = Edit_info" and ef: "editField s = Some f"
    and rej: "\<not> acceptedEdit f (sanitizeDisplayText inp)"
  shows "flowStep (handleBotResponse e inp s) \<noteq> Review"
proof (cases "sanitizeDisplayText inp = []")
  case True
  then show ?thesis
    using fs by (simp add: handleBotResponse_def Let_def)
next
  case ne: False
  show ?thesis
  proof (cases f)
    case Edit_name
    then show ?thesis
      using fs ef rej ne
      by (simp add: handleBotResponse_def editInfoName_def Let_def acceptedEdit_def)
  next
    case Edit_payment
    then show ?thesis
      using fs ef rej ne
      by (simp add: handleBotResponse_def editInfoPayment_def Let_def acceptedEdit_def)
  next
    case Edit_address
    show ?thesis
    proof (cases "cepMatch (sanitizeDisplayText inp)")
      case None
      then show ?thesis
        using fs ef rej ne Edit_address
        by (simp add: handleBotResponse_def editInfoAddress_def Let_def acceptedEdit_def)
    next
      case (Some m)
      obtain r s1 where h: "handleCEPAction e m (s\<lparr>isTyping := True\<rparr>) = (r, s1)"
        by (cases "handleCEPAction e m (s\<lparr>isTyping := True\<rparr>)") auto
      have "flowStep s1 = Edit_info"
        using handleCEPAction_fields [OF h] fs by simp
      then show ?thesis
        using fs ef ne Edit_address Some h
        by (cases r) (simp_all add: handleBotResponse_def editInfoAddress_def Let_def)
    qed
  qed
qed

lemma askPayment_result:
  assumes fs: "flowStep s = Ask_payment"
  shows "(acceptedEdit Edit_payment (sanitizeDisplayText inp) \<longrightarrow>
            flowStep (handleBotResponse e inp s) = Review
            \<and> userData (handleBotResponse e inp s) =
                storeEdit Edit_payment (sanitizeDisplayText inp) (userData s))
       \<and> (\<not> acceptedEdit Edit_payment (sanitizeDisplayText inp) \<longrightarrow>
            flowStep (handleBotResponse e inp s) \<noteq> Review)
       \<and> isChatClosed (handleBotResponse e inp s) = isChatClosed s"
proof (cases "sanitizeDisplayText inp = []")
  case True
  then show ?thesis
    using fs validatePayment_empty
    by (simp add: handleBotResponse_def Let_def acceptedEdit_def)
next
  case False
  then show ?thesis
    using fs
    by (simp add: handleBotResponse_def askPayment_def Let_def acceptedEdit_def storeEdit_def)
qed

lemma handleCEPAction_typing:
  "fst (handleCEPAction e m (s\<lparr>isTyping := b\<rparr>)) = fst (handleCEPAction e m s)"
  by (simp add: handleCEPAction_def Let_def notify_def split: cep_response.splits)

lemma editInfo_cep:
  assumes fs: "flowStep s = Edit_info" and ef: "editField s = Some Edit_address"
    and cm: "cepMatch (sanitizeDisplayText inp) = Some m"
    and found: "fst (handleCEPAction e m s) = Some d"
  shows "flowStep (handleBotResponse e inp s) = Ask_address_number
    \<and> userData (handleBotResponse e inp s) = userData s
    \<and> pendingAddress (handleBotResponse e inp s) = baseAddress d
    \<and> editField (handleBotResponse e inp s) = Some Edit_address"
proof -
  have ne: "sanitizeDisplayText inp \<noteq> []"
    using cm cepMatch_empty by auto
  obtain r s1 where h: "handleCEPAction e m (s\<lparr>isTyping := True\<rparr>) = (r, s1)"
    by (cases "handleCEPAction e m (s\<lparr>isTyping := True\<rparr>)") auto
  have r: "r = Some d"
    using found handleCEPAction_typing [where e = e and m = m and s = s and b = True] h by simp
  have keep: "userData s1 = userData s" "editField s1 = editField s"
    using handleCEPAction_fields [OF h] by simp_all
  show ?thesis
    using fs ef ne cm h r keep
    by (simp add: handleBotResponse_def editInfoAddress_def Let_def)
qed

text \<open>
  C5, amended. In the editing sub-mode (step \<open>Edit_info\<close> with an edit target), every
  submission that is accepted for the targeted field (a valid name, a valid payment
  method, or an address that holds no postal-code pattern and is not rejected as too
  short) stores the value into the user data, clears the edit target, moves the step
  directly to \<open>Review\<close> and appends the order summary with the updated data. An address
  edit entered as a postal code that the lookup resolves does not return to the review:
  it leaves the user data unchanged, keeps the joined address as the pending address and
  moves to \<open>Ask_address_number\<close> to collect the house number.
\<close>

theorem edit_submission_returns_to_review:
  assumes "flowStep s = Edit_info" and "editField s = Some f"
  shows "(acceptedEdit f (sanitizeDisplayText inp) \<longrightarrow>
            flowStep (handleBotResponse e inp s) = Review
            \<and> editField (handleBotResponse e inp s) = None
            \<and> userData (handleBotResponse e inp s) =
                storeEdit f (sanitizeDisplayText inp) (userData s)
            \<and> last (messages (handleBotResponse e inp s)) =
                \<lparr>msg_role = Bot,
                 msg_text = Review_summary (cart s)
                   (storeEdit f (sanitizeDisplayText inp) (userData s)) (totalValue (cart s))\<rparr>)
       \<and> (f = Edit_address \<and> cepMatch (sanitizeDisplayText inp) = Some m
            \<and> fst (handleCEPAction e m s) = Some d \<longrightarrow>
            flowStep (handleBotResponse e inp s) = Ask_address_number
            \<and> userData (handleBotResponse e inp s) = userData s
            \<and> pendingAddress (handleBotResponse e inp s) = baseAddress d)"
  using editInfo_accepted [where inp = inp and e = e, OF assms]
    editInfo_cep [where s = s and inp = inp and m = m and e = e and d = d] assms
  by auto

lemma san_maria: "sanitizeDisplayText ''Maria'' = ''Maria''"
  by code_simp

lemma san_rua: "sanitizeDisplayText ''Rua B, 20, Centro'' = ''Rua B, 20, Centro''"
  by code_simp

lemma san_dinheiro: "sanitizeDisplayText ''Dinheiro'' = ''Dinheiro''"
  by code_simp

lemma san_cep: "sanitizeDisplayText ''40020-000'' = ''40020-000''"
  by code_simp

lemma acc_maria: "acceptedEdit Edit_name ''Maria''"
  by code_simp

lemma acc_rua: "acceptedEdit Edit_address ''Rua B, 20, Centro''"
  by code_simp

lemma acc_dinheiro: "acceptedEdit Edit_payment ''Dinheiro''"
  by code_simp

lemma cep_found: "cepMatch ''40020-000'' = Some ''40020-000''"
  "fst (handleCEPAction exampleEnv ''40020-000'' (editing Edit_address)) = Some fullData"
  by code_simp+

lemma editing_fields: "flowStep (editing f) = Edit_info" "editField (editing f) = Some f"
  "userData (editing f) = \<lparr>name = ''Ana'', address = ''Rua A, 1'', paymentMethod = ''Pix''\<rparr>"
  by (simp_all add: editing_def reviewState_def)

theorem edit_submission_returns_to_review_witness:
  "flowStep (editing Edit_name) = Edit_info \<and> editField (editing Edit_name) = Some Edit_name
   \<and> acceptedEdit Edit_name (sanitizeDisplayText ''Maria'')
   \<and> flowStep (handleBotResponse exampleEnv ''Maria'' (editing Edit_name)) = Review
   \<and> name (userData (handleBotResponse exampleEnv ''Maria'' (editing Edit_name))) = ''Maria''
   \<and> acceptedEdit Edit_address (sanitizeDisplayText ''Rua B, 20, Centro'')
   \<and> flowStep (handleBotResponse exampleEnv ''Rua B, 20, Centro'' (editing Edit_address)) = Review
   \<and> acceptedEdit Edit_payment (sanitizeDisplayText ''Dinheiro'')
   \<and> flowStep (handleBotResponse exampleEnv ''Dinheiro'' (editing Edit_payment)) = Review
   \<and> cepMatch (sanitizeDisplayText ''40020-000'') = Some ''40020-000''
   \<and> fst (handleCEPAction exampleEnv ''40020-000'' (editing Edit_address)) = Some fullData
   \<and> flowStep (handleBotResponse exampleEnv ''40020-000'' (editing Edit_address))
       = Ask_address_number"
  using edit_submission_returns_to_review [where f = Edit_name and inp = "''Maria''" and e = exampleEnv,
      OF editing_fields(1) editing_fields(2)]
    edit_submission_returns_to_review [where f = Edit_address and inp = "''Rua B, 20, Centro''" and e = exampleEnv,
      OF editing_fields(1) editing_fields(2)]
    edit_submission_returns_to_review [where f = Edit_payment and inp = "''Dinheiro''" and e = exampleEnv,
      OF editing_fields(1) editing_fields(2)]
    edit_submission_returns_to_review [where f = Edit_address and inp = "''40020-000''" and e = exampleEnv
      and m = "''40020-000''" and d = fullData,
      OF editing_fields(1) editing_fields(2)]
  by (simp add: san_maria san_rua san_dinheiro san_cep acc_maria acc_rua acc_dinheiro cep_found
      editing_fields storeEdit_def validateName_def trim_def isSpace_def onlyDigitsOrSpaces_def
      noLetterNoSpace_def isDigit_def isAsciiLetter_def)

text \<open>
  C5, as stated, fails for an address edit entered as a postal code: with the step at
  \<open>Edit_info\<close>, the edit target at the address and a valid postal code that the lookup
  resolves, the step becomes \<open>Ask_address_number\<close>, not \<open>Review\<close>, and nothing is
  stored into the user data.
\<close>

theorem edit_by_postal_code_counterexample:
  "flowStep (editing Edit_address) = Edit_info
   \<and> editField (editing Edit_address) = Some Edit_address
   \<and> cep_valid (validateCEP ''40020-000'')
   \<and> fst (handleCEPAction exampleEnv ''40020-000'' (editing Edit_address)) = Some fullData
   \<and> flowStep (handleBotResponse exampleEnv ''40020-000'' (editing Edit_address))
       = Ask_address_number
   \<and> userData (handleBotResponse exampleEnv ''40020-000'' (editing Edit_address))
       = userData (editing Edit_address)"
  by code_simp

subsection \<open>Idempotence of an edit round\<close>

lemma goBack_select_fields:
  "isChatClosed (selectEditField f (goBackToEditing s)) = isChatClosed s"
  "userData (selectEditField f (goBackToEditing s)) = userData s"
  "flowStep (selectEditField f (goBackToEditing s)) =
     (if f = Edit_payment then Ask_payment else Edit_info)"
  "editField (selectEditField f (goBackToEditing s)) = Some f"
  by (cases f; simp add: selectEditField_def goBackToEditing_def)+

lemma handleBotResponse_edit_round:
  assumes fs: "flowStep p = (if f = Edit_payment then Ask_payment else Edit_info)"
    and ef: "editField p = Some f"
  shows "(acceptedEdit f (sanitizeDisplayText inp) \<longrightarrow>
            flowStep (handleBotResponse e inp p) = Review
            \<and> userData (handleBotResponse e inp p) = storeEdit f (sanitizeDisplayText inp) (userData p))
       \<and> (\<not> acceptedEdit f (sanitizeDisplayText inp) \<longrightarrow>
            flowStep (handleBotResponse e inp p) \<noteq> Review)"
proof (cases "f = Edit_payment")
  case True
  then show ?thesis
    using askPayment_result [of p inp e] fs by simp
next
  case False
  then have fs': "flowStep p = Edit_info" using fs by simp
  show ?thesis
    using editInfo_accepted [OF fs' ef, of inp e] editInfo_rejected [OF fs' ef, of inp e]
    by blast
qed

lemma editInfoAddress_closed:
  "isChatClosed (editInfoAddress e inp s) = isChatClosed s"
proof (cases "cepMatch inp")
  case None
  then show ?thesis
    by (simp add: editInfoAddress_def Let_def)
next
  case (Some m)
  obtain r s1 where h: "handleCEPAction e m s = (r, s1)"
    by (cases "handleCEPAction e m s") auto
  have "isChatClosed s1 = isChatClosed s"
    using handleCEPAction_fields [OF h] by simp
  then show ?thesis
    using Some h by (cases r) (simp_all add: editInfoAddress_def)
qed

lemma askAddress_closed:
  "isChatClosed (askAddress e inp s) = isChatClosed s"
proof (cases "cepMatch inp")
  case None
  then show ?thesis
    by (simp add: askAddress_def Let_def)
next
  case (Some m)
  obtain r s1 where h: "handleCEPAction e m s = (r, s1)"
    by (cases "handleCEPAction e m s") auto
  have "isChatClosed s1 = isChatClosed s"
    using handleCEPAction_fields [OF h] by simp
  then show ?thesis
    using Some h by (cases r) (simp_all add: askAddress_def)
qed

lemma branch_closed:
  "isChatClosed (editInfoName e inp s) = isChatClosed s"
  "isChatClosed (editInfoPayment e inp s) = isChatClosed s"
  "isChatClosed (askName e inp s) = isChatClosed s"
  "isChatClosed (confirmAddress inp s) = isChatClosed s"
  "isChatClosed (askAddressNumber e inp s) = isChatClosed s"
  "isChatClosed (askPayment e inp s) = isChatClosed s"
  "isChatClosed (generativeReply e inp s) = isChatClosed s"
  by (simp_all add: editInfoName_def editInfoPayment_def askName_def
      confirmAddress_def askAddressNumber_def askPayment_def generativeReply_def Let_def)

lemma handleBotResponse_closed:
  "isChatClosed (handleBotResponse e inp s) = isChatClosed s"
  by (simp add: handleBotResponse_def Let_def branch_closed editInfoAddress_closed askAddress_closed)

lemma editAndSubmit_closed:
  "isChatClosed (editAndSubmit e f inp s) = isChatClosed s"
  by (simp add: editAndSubmit_def handleSend_def handleBotResponse_closed goBack_select_fields)

lemma editAndSubmit_review:
  "(flowStep (editAndSubmit e f inp s) = Review) =
     (\<not> isChatClosed s \<and> inp \<noteq> [] \<and> trim inp \<noteq> [] \<and> acceptedEdit f (sanitizeDisplayText inp))"
proof -
  let ?p = "selectEditField f (goBackToEditing s)"
  have fs: "flowStep (addMessage User inp ?p) = (if f = Edit_payment then Ask_payment else Edit_info)"
    and ef: "editField (addMessage User inp ?p) = Some f"
    by (simp_all add: goBack_select_fields)
  have nr: "flowStep ?p \<noteq> Review"
    by (simp add: goBack_select_fields)
  show ?thesis
    using handleBotResponse_edit_round [OF fs ef, of inp e] nr
    by (auto simp: editAndSubmit_def handleSend_def goBack_select_fields)
qed

lemma editAndSubmit_stored:
  assumes "flowStep (editAndSubmit e f inp s) = Review"
  shows "userData (editAndSubmit e f inp s) = storeEdit f (sanitizeDisplayText inp) (userData s)"
proof -
  let ?p = "selectEditField f (goBackToEditing s)"
  have fs: "flowStep (addMessage User inp ?p) = (if f = Edit_payment then Ask_payment else Edit_info)"
    and ef: "editField (addMessage User inp ?p) = Some f"
    by (simp_all add: goBack_select_fields)
  have acc: "\<not> isChatClosed s \<and> inp \<noteq> [] \<and> trim inp \<noteq> [] \<and> acceptedEdit f (sanitizeDisplayText inp)"
    using assms by (simp add: editAndSubmit_review)
  then show ?thesis
    using handleBotResponse_edit_round [OF fs ef, of inp e]
    by (simp add: editAndSubmit_def handleSend_def goBack_select_fields)
qed

lemma storeEdit_idem: "storeEdit f v (storeEdit f v u) = storeEdit f v u"
  by (cases f) (simp_all add: storeEdit_def)

text \<open>
  C7. If one round of editing a field (back to editing, the field's button, submitting
  a text) has returned to the review, then a second round for the same field with the
  same text, whatever the environment does, leaves the user data and the step exactly
  as they were after the first round. The same holds for the three edit branches of
  \<open>handleBotResponse\<close> taken directly: a submission that went from \<open>Edit_info\<close> to the
  review, repeated from \<open>Edit_info\<close> with the same target and text, changes neither.
\<close>

theorem edit_and_submit_idempotent:
  "(flowStep (editAndSubmit e f inp s) = Review \<longrightarrow>
      userData (editAndSubmit e' f inp (editAndSubmit e f inp s)) = userData (editAndSubmit e f inp s)
      \<and> flowStep (editAndSubmit e' f inp (editAndSubmit e f inp s)) = flowStep (editAndSubmit e f inp s))
   \<and> (flowStep p = Edit_info \<and> editField p = Some f \<and> flowStep (handleBotResponse e inp p) = Review \<longrightarrow>
      userData (handleBotResponse e' inp ((handleBotResponse e inp p)\<lparr>flowStep := Edit_info, editField := Some f\<rparr>))
        = userData (handleBotResponse e inp p)
      \<and> flowStep (handleBotResponse e' inp ((handleBotResponse e inp p)\<lparr>flowStep := Edit_info, editField := Some f\<rparr>))
        = flowStep (handleBotResponse e inp p))"
proof -
  have round: "userData (editAndSubmit e' f inp (editAndSubmit e f inp s)) = userData (editAndSubmit e f inp s)
      \<and> flowStep (editAndSubmit e' f inp (editAndSubmit e f inp s)) = flowStep (editAndSubmit e f inp s)"
    if r: "flowStep (editAndSubmit e f inp s) = Review"
  proof -
    have acc: "\<not> isChatClosed s \<and> inp \<noteq> [] \<and> trim inp \<noteq> [] \<and> acceptedEdit f (sanitizeDisplayText inp)"
      using r by (simp add: editAndSubmit_review)
    then have again: "flowStep (editAndSubmit e' f inp (editAndSubmit e f inp s)) = Review"
      by (simp add: editAndSubmit_review editAndSubmit_closed)
    have "userData (editAndSubmit e' f inp (editAndSubmit e f inp s)) =
        storeEdit f (sanitizeDisplayText inp) (userData (editAndSubmit e f inp s))"
      by (rule editAndSubmit_stored [OF again])
    also have "\<dots> = storeEdit f (sanitizeDisplayText inp) (storeEdit f (sanitizeDisplayText inp) (userData s))"
      by (simp add: editAndSubmit_stored [OF r])
    also have "\<dots> = userData (editAndSubmit e f inp s)"
      by (simp add: storeEdit_idem editAndSubmit_stored [OF r])
    finally show ?thesis
      using again r by simp
  qed
  have branch: "userData (handleBotResponse e' inp ((handleBotResponse e inp p)\<lparr>flowStep := Edit_info, editField := Some f\<rparr>))
        = userData (handleBotResponse e inp p)
      \<and> flowStep (handleBotResponse e' inp ((handleBotResponse e inp p)\<lparr>flowStep := Edit_info, editField := Some f\<rparr>))
        = flowStep (handleBotResponse e inp p)"
    if fs: "flowStep p = Edit_info" and ef: "editField p = Some f"
      and r: "flowStep (handleBotResponse e inp p) = Review"
  proof -
    have acc: "acceptedEdit f (sanitizeDisplayText inp)"
      using editInfo_rejected [OF fs ef, of inp e] r by blast
    let ?q = "(handleBotResponse e inp p)\<lparr>flowStep := Edit_info, editField := Some f\<rparr>"
    have fs': "flowStep ?q = Edit_info" and ef': "editField ?q = Some f"
      by simp_all
    have u: "userData ?q = storeEdit f (sanitizeDisplayText inp) (userData p)"
      using editInfo_accepted [OF fs ef acc, of e] by simp
    show ?thesis
      using editInfo_accepted [OF fs' ef' acc, of e'] editInfo_accepted [OF fs ef acc, of e] u
      by (simp add: storeEdit_idem)
  qed
  show ?thesis
    using round branch by blast
qed

lemma review_maria: "flowStep (editAndSubmit exampleEnv Edit_name ''Maria'' reviewState) = Review"
  by code_simp

lemma review_rua: "flowStep (editAndSubmit exampleEnv Edit_address ''Rua B, 20, Centro'' reviewState) = Review"
  by code_simp

lemma review_dinheiro: "flowStep (editAndSubmit exampleEnv Edit_payment ''Dinheiro'' reviewState) = Review"
  by code_simp

lemma review_branch:
  "flowStep (handleBotResponse exampleEnv ''Dinheiro'' (editing Edit_payment)) = Review"
  by code_simp

theorem edit_and_submit_idempotent_witness:
  "flowStep (editAndSubmit exampleEnv Edit_name ''Maria'' reviewState) = Review
   \<and> userData (editAndSubmit cityOnlyEnv Edit_name ''Maria''
         (editAndSubmit exampleEnv Edit_name ''Maria'' reviewState))
       = userData (editAndSubmit exampleEnv Edit_name ''Maria'' reviewState)
   \<and> flowStep (editAndSubmit exampleEnv Edit_address ''Rua B, 20, Centro'' reviewState) = Review
   \<and> userData (editAndSubmit cityOnlyEnv Edit_address ''Rua B, 20, Centro''
         (editAndSubmit exampleEnv Edit_address ''Rua B, 20, Centro'' reviewState))
       = userData (editAndSubmit exampleEnv Edit_address ''Rua B, 20, Centro'' reviewState)
   \<and> flowStep (editAndSubmit exampleEnv Edit_payment ''Dinheiro'' reviewState) = Review
   \<and> flowStep (editAndSubmit cityOnlyEnv Edit_payment ''Dinheiro''
         (editAndSubmit exampleEnv Edit_payment ''Dinheiro'' reviewState)) = Review
   \<and> flowStep (editing Edit_payment) = Edit_info
   \<and> editField (editing Edit_payment) = Some Edit_payment
   \<and> flowStep (handleBotResponse exampleEnv ''Dinheiro'' (editing Edit_payment)) = Review
   \<and> flowStep (handleBotResponse cityOnlyEnv ''Dinheiro''
         ((handleBotResponse exampleEnv ''Dinheiro'' (editing Edit_payment))
            \<lparr>flowStep := Edit_info, editField := Some Edit_payment\<rparr>)) = Review"
  using edit_and_submit_idempotent [where e = exampleEnv and f = Edit_name and inp = "''Maria''"
      and s = reviewState and e' = cityOnlyEnv and p = "editing Edit_name"]
    edit_and_submit_idempotent [where e = exampleEnv and f = Edit_address
      and inp = "''Rua B, 20, Centro''" and s = reviewState and e' = cityOnlyEnv
      and p = "editing Edit_address"]
    edit_and_submit_idempotent [where e = exampleEnv and f = Edit_payment and inp = "''Dinheiro''"
      and s = reviewState and e' = cityOnlyEnv and p = "editing Edit_payment"]
    review_maria review_rua review_dinheiro review_branch
  by (simp add: editing_fields)

subsection \<open>Checkout preconditions\<close>

lemma showNotification_visible:
  "\<exists>n\<in>set (showNotification t ty msg d prev). n_message n = msg"
  by (auto simp: showNotification_def list_ex_iff)

text \<open>
  C6. The checkout action with an empty cart leaves the step as it is (and enters
  \<open>Ask_name\<close> otherwise). Before the redirection, a missing name, address or payment
  method sends the step to \<open>Edit_info\<close>, and, the three being present, an empty cart
  sends it to \<open>Ordering\<close>; each time the error notification is shown through the
  notification center and is visible afterwards, and in neither case does the step
  become \<open>Finished\<close>, which it does when all four checks pass.
\<close>

theorem checkout_preconditions:
  "(cart s = [] \<longrightarrow> flowStep (startCheckoutFlow s) = flowStep s)
   \<and> (cart s \<noteq> [] \<longrightarrow> flowStep (startCheckoutFlow s) = Ask_name)
   \<and> (name (userData s) = [] \<or> address (userData s) = [] \<or> paymentMethod (userData s) = [] \<longrightarrow>
        flowStep (startRedirection e s) = Edit_info
        \<and> notifications (startRedirection e s) =
            showNotification (now e) Error
              ''Dados incompletos. Por favor, preencha todas as informacoes.'' True (notifications s)
        \<and> (\<exists>n\<in>set (notifications (startRedirection e s)).
              n_message n = ''Dados incompletos. Por favor, preencha todas as informacoes.''))
   \<and> (name (userData s) \<noteq> [] \<and> address (userData s) \<noteq> [] \<and> paymentMethod (userData s) \<noteq> []
        \<and> cart s = [] \<longrightarrow>
        flowStep (startRedirection e s) = Ordering
        \<and> notifications (startRedirection e s) =
            showNotification (now e) Error
              ''Carrinho vazio. Adicione itens antes de finalizar.'' True (notifications s)
        \<and> (\<exists>n\<in>set (notifications (startRedirection e s)).
              n_message n = ''Carrinho vazio. Adicione itens antes de finalizar.''))
   \<and> (name (userData s) = [] \<or> address (userData s) = [] \<or> paymentMethod (userData s) = []
        \<or> cart s = [] \<longrightarrow> flowStep (startRedirection e s) \<noteq> Finished)
   \<and> (name (userData s) \<noteq> [] \<and> address (userData s) \<noteq> [] \<and> paymentMethod (userData s) \<noteq> []
        \<and> cart s \<noteq> [] \<longrightarrow> flowStep (startRedirection e s) = Finished)"
proof -
  have a: "cart s = [] \<longrightarrow> flowStep (startCheckoutFlow s) = flowStep s"
    and b: "cart s \<noteq> [] \<longrightarrow> flowStep (startCheckoutFlow s) = Ask_name"
    by (simp_all add: startCheckoutFlow_def)
  have c: "\<exists>n\<in>set (notifications (notify e Error msg s)). n_message n = msg" for msg
    using showNotification_visible by (simp add: notify_def)
  have n: "notifications (notify e Error msg s) =
      showNotification (now e) Error msg True (notifications s)" for msg
    by (simp add: notify_def)
  show ?thesis
    using a b c n by (simp add: startRedirection_def)
qed

theorem checkout_preconditions_witness:
  "cart emptyCartState = [] \<and> flowStep (startCheckoutFlow emptyCartState) = Review
   \<and> flowStep (startCheckoutFlow reviewState) = Ask_name
   \<and> name (userData noNameState) = [] \<and> flowStep (startRedirection exampleEnv noNameState) = Edit_info
   \<and> flowStep (startRedirection exampleEnv emptyCartState) = Ordering
   \<and> n_type (last (notifications (startRedirection exampleEnv emptyCartState))) = Error
   \<and> flowStep (startRedirection exampleEnv reviewState) = Finished"
  using checkout_preconditions [of emptyCartState exampleEnv]
    checkout_preconditions [of reviewState exampleEnv]
    checkout_preconditions [of noNameState exampleEnv]
  by (simp add: emptyCartState_def noNameState_def reviewState_def twoBurgers_def
      showNotification_def sliceLast_def)

subsection \<open>Joined address of a postal-code lookup\<close>

text \<open>
  C8. The claim that the joined address never has an empty comma-delimited segment
  fails on the code: for a lookup that returns only city and state (street and
  neighbourhood empty), which \<open>handleCEPAction\<close> accepts, the leading-comma removal runs
  before the double-comma collapse and the displayed address starts with a comma, so
  its first segment is empty.
\<close>

theorem address_join_leading_comma:
  "fst (handleCEPAction cityOnlyEnv ''40020-000'' askingAddress) = Some cityOnlyData
   \<and> baseAddress cityOnlyData = '', Salvador - BA''
   \<and> splitComma (baseAddress cityOnlyData) = [[], '' Salvador - BA'']
   \<and> pendingAddress (handleBotResponse cityOnlyEnv ''40020-000'' askingAddress) = '', Salvador - BA''
   \<and> flowStep (handleBotResponse cityOnlyEnv ''40020-000'' askingAddress) = Confirm_address"
  by code_simp

end
